theory Spec2Isabelle
  imports Complex_Main "HOL-Library.Sublist"
begin

section \<open>The disk-provisioning engine of the installer (installerworker.cpp)\<close>

text \<open>
  The engine drives external disk utilities (parted, lsblk, mkfs, mount, ...) through Qt's
  QProcess and reports to the wizard through three Qt signals. The embedding keeps the
  structure of the C++ source: every helper of installerworker.cpp is one HOL function of the
  same name, every external command is a step on an explicit system state, and every early
  \<^verbatim>\<open>return\<close> is a branch.

  Conventions.
  \<^item> A QString is a \<^typ>\<open>string\<close>; the texts handled here (device names, parted and lsblk
    output) are ASCII.
  \<^item> A \<^verbatim>\<open>double\<close> is a \<^typ>\<open>rat\<close>: every finite double is a rational, and the source only
    compares doubles, adds small constants and takes ceiling and floor; infinities, NaN and
    rounding of sums are outside the model.
  \<^item> A \<^verbatim>\<open>long long\<close> is an \<^typ>\<open>int\<close> between \<open>- 2 ^ 63\<close> and \<open>2 ^ 63 - 1\<close>, a \<^verbatim>\<open>qulonglong\<close> a
    \<^typ>\<open>nat\<close> below \<open>2 ^ 64\<close>. The results of additions and subtractions are wrapped into the
    range (\<open>longLong\<close>), and the conversions of a double are written out (\<open>toLongLong\<close>,
    \<open>toULongLong\<close>) with the value that x86-64 code yields where C++ leaves the result
    undefined. Every property of these values below is stated for the defined range.
  \<^item> A \<^verbatim>\<open>QSet<QString>\<close> is a duplicate-free list; Qt leaves the iteration order of a QSet
    unspecified, the model iterates in insertion order.
\<close>

subsection \<open>QString and QChar operations\<close>

definition isSpace :: "char \<Rightarrow> bool" where
  \<comment> \<open>QChar::isSpace, and the class \<^verbatim>\<open>\s\<close> of QRegularExpression, on ASCII\<close>
  "isSpace c \<longleftrightarrow> c \<in> set [CHR '' '', CHR 0x09, CHR 0x0A, CHR 0x0B, CHR 0x0C, CHR 0x0D]"

definition isDigit :: "char \<Rightarrow> bool" where
  "isDigit c \<longleftrightarrow> c \<in> set ''0123456789''"

definition toLowerChar :: "char \<Rightarrow> char" where
  "toLowerChar c =
     (case map_of (zip ''ABCDEFGHIJKLMNOPQRSTUVWXYZ'' ''abcdefghijklmnopqrstuvwxyz'') c of
        Some l \<Rightarrow> l
      | None \<Rightarrow> c)"

definition toLower :: "string \<Rightarrow> string" where
  "toLower s = map toLowerChar s"

definition startsWith :: "string \<Rightarrow> string \<Rightarrow> bool" where
  "startsWith s p \<longleftrightarrow> take (length p) s = p"

definition mid :: "string \<Rightarrow> nat \<Rightarrow> string" where
  "mid s n = drop n s"

fun contains :: "string \<Rightarrow> string \<Rightarrow> bool" where
  "contains [] p \<longleftrightarrow> p = []"
| "contains (c # cs) p \<longleftrightarrow> startsWith (c # cs) p \<or> contains cs p"

definition containsCI :: "string \<Rightarrow> string \<Rightarrow> bool" where
  \<comment> \<open>\<^verbatim>\<open>s.contains(p, Qt::CaseInsensitive)\<close>\<close>
  "containsCI s p \<longleftrightarrow> contains (toLower s) (toLower p)"

definition trimmed :: "string \<Rightarrow> string" where
  "trimmed s = rev (dropWhile isSpace (rev (dropWhile isSpace s)))"

fun splitKeep :: "char \<Rightarrow> string \<Rightarrow> string list" where
  \<comment> \<open>\<^verbatim>\<open>s.split(sep)\<close>: empty fields are kept\<close>
  "splitKeep sep [] = [[]]"
| "splitKeep sep (c # cs) =
     (if c = sep then [] # splitKeep sep cs
      else (case splitKeep sep cs of w # ws \<Rightarrow> (c # w) # ws | [] \<Rightarrow> [[c]]))"

definition splitSkip :: "char \<Rightarrow> string \<Rightarrow> string list" where
  \<comment> \<open>\<^verbatim>\<open>s.split(sep, Qt::SkipEmptyParts)\<close>\<close>
  "splitSkip sep s = filter (\<lambda>w. w \<noteq> []) (splitKeep sep s)"

definition splitLines :: "string \<Rightarrow> string list" where
  \<comment> \<open>\<^verbatim>\<open>s.split('\n', Qt::SkipEmptyParts)\<close>\<close>
  "splitLines s = splitSkip (CHR 0x0A) s"

fun splitWsFrom :: "bool \<Rightarrow> string \<Rightarrow> string list" where
  \<comment> \<open>splitting at maximal runs of white space; the flag says that the scan is inside a run\<close>
  "splitWsFrom inSep [] = [[]]"
| "splitWsFrom inSep (c # cs) =
     (if isSpace c then (if inSep then splitWsFrom True cs else [] # splitWsFrom True cs)
      else (case splitWsFrom False cs of w # ws \<Rightarrow> (c # w) # ws | [] \<Rightarrow> [[c]]))"

definition splitWsKeep :: "string \<Rightarrow> string list" where
  \<comment> \<open>\<^verbatim>\<open>s.split(QRegularExpression("\\s+"))\<close>\<close>
  "splitWsKeep s = splitWsFrom False s"

definition splitWs :: "string \<Rightarrow> string list" where
  \<comment> \<open>\<^verbatim>\<open>s.split(QRegularExpression("\\s+"), Qt::SkipEmptyParts)\<close>\<close>
  "splitWs s = filter (\<lambda>w. w \<noteq> []) (splitWsKeep s)"

function removeStr :: "bool \<Rightarrow> string \<Rightarrow> string \<Rightarrow> string" where
  \<comment> \<open>\<^verbatim>\<open>s.remove(p, cs)\<close>: every occurrence of p, found from left to right, is deleted;
      the flag is True for Qt::CaseInsensitive\<close>
  "removeStr ci p [] = []"
| "removeStr ci p (c # cs) =
     (if p \<noteq> [] \<and>
         (if ci then startsWith (toLower (c # cs)) (toLower p) else startsWith (c # cs) p)
      then removeStr ci p (drop (length p) (c # cs))
      else c # removeStr ci p cs)"
  by pat_completeness auto
termination
  by (relation "measure (\<lambda>(ci, p, s). length s)") (auto simp: neq_Nil_conv)

definition replaceChar :: "char \<Rightarrow> char \<Rightarrow> string \<Rightarrow> string" where
  "replaceChar a b s = map (\<lambda>c. if c = a then b else c) s"

definition digitChar :: "nat \<Rightarrow> char" where
  "digitChar d = ''0123456789'' ! d"

fun showNat :: "nat \<Rightarrow> string" where
  \<comment> \<open>QString::number on a non-negative integer\<close>
  "showNat n = (if n < 10 then [digitChar n] else showNat (n div 10) @ [digitChar (n mod 10)])"

declare showNat.simps [simp del]

definition number :: "int \<Rightarrow> string" where
  \<comment> \<open>QString::number(long long)\<close>
  "number i = (if i < 0 then CHR ''-'' # showNat (nat (- i)) else showNat (nat i))"

definition digitValue :: "char \<Rightarrow> nat" where
  "digitValue c = length (takeWhile (\<lambda>d. d \<noteq> c) ''0123456789'')"

definition digitsValue :: "string \<Rightarrow> nat" where
  "digitsValue ds = foldl (\<lambda>acc c. 10 * acc + digitValue c) 0 ds"

subsection \<open>The host: external commands, files, signals\<close>

text \<open>
  The program sees the machine only through Qt: it runs commands (QProcess), looks at a few
  files (QFile, QFileInfo, QDir) and parses numbers. The record \<open>host\<close> collects these
  operations over an arbitrary type \<open>'w\<close> of machine states. Running a command may change the
  machine; it yields the exit code and the standard output. \<open>toDouble\<close> is
  QString::toDouble with its \<^verbatim>\<open>ok\<close> flag: \<open>None\<close> when the text is not a number.
\<close>

record 'w host =
  process :: "string list \<Rightarrow> 'w \<Rightarrow> (int \<times> string) \<times> 'w"
  canonicalFilePath :: "'w \<Rightarrow> string \<Rightarrow> string"
  fileExists :: "'w \<Rightarrow> string \<Rightarrow> bool"
  findExecutable :: "'w \<Rightarrow> string \<Rightarrow> string"
  readFile :: "'w \<Rightarrow> string \<Rightarrow> string option"
  openForWriting :: "'w \<Rightarrow> string \<Rightarrow> bool"
  subdirectories :: "'w \<Rightarrow> string \<Rightarrow> string list option"
  toDouble :: "string \<Rightarrow> rat option"

datatype event = LogMessage string | ErrorOccurred string | InstallComplete

datatype action =
    Execute "string list"
  | Start "string list"
  | Emit event
  | RemoveFile string
  | WriteFile string string
  | Sleep nat

text \<open>
  The system state is the machine together with the journal of everything the engine has
  done so far, oldest first: commands run for their exit code (\<open>Execute\<close>,
  QProcess::execute), commands run for their output (\<open>Start\<close>, QProcess::start and
  readAllStandardOutput), signals emitted, files removed and written, and sleeps.
\<close>

record 'w sys =
  world :: 'w
  journal :: "action list"

definition execute :: "'w host \<Rightarrow> string list \<Rightarrow> 'w sys \<Rightarrow> int \<times> 'w sys" where
  "execute h c s =
     (case process h c (world s) of
        ((rc, out), w) \<Rightarrow> (rc, s\<lparr>world := w, journal := journal s @ [Execute c]\<rparr>))"

definition capture :: "'w host \<Rightarrow> string list \<Rightarrow> 'w sys \<Rightarrow> string \<times> 'w sys" where
  "capture h c s =
     (case process h c (world s) of
        ((rc, out), w) \<Rightarrow> (out, s\<lparr>world := w, journal := journal s @ [Start c]\<rparr>))"

definition act :: "action \<Rightarrow> 'w sys \<Rightarrow> 'w sys" where
  "act a s = s\<lparr>journal := journal s @ [a]\<rparr>"

definition emit :: "event \<Rightarrow> 'w sys \<Rightarrow> 'w sys" where
  "emit e s = act (Emit e) s"

subsection \<open>QSet of kernel names\<close>

definition qinsert :: "string \<Rightarrow> string list \<Rightarrow> string list" where
  "qinsert x xs = (if x \<in> set xs then xs else xs @ [x])"

definition qminus :: "string list \<Rightarrow> string list \<Rightarrow> string list" where
  \<comment> \<open>\<^verbatim>\<open>after - before\<close>\<close>
  "qminus a b = filter (\<lambda>x. x \<notin> set b) a"

subsection \<open>Device inspection\<close>

definition childRow :: "string \<Rightarrow> string list \<Rightarrow> string \<Rightarrow> string list" where
  \<comment> \<open>the body of the loop of childPartitionsSet, for one row of lsblk\<close>
  "childRow base out r =
     (let cols = splitWs r in
      if length cols < 3 then out
      else if cols ! 1 = ''part'' \<and> cols ! 2 = base then qinsert (cols ! 0) out
      else out)"

definition childPartitionsSet :: "'w host \<Rightarrow> string \<Rightarrow> 'w sys \<Rightarrow> string list \<times> 'w sys" where
  "childPartitionsSet h devPath s =
     (let base = (if startsWith devPath ''/dev/'' then mid devPath 5 else devPath);
          (out, s1) = capture h [''lsblk'', ''-ln'', ''-o'', ''NAME,TYPE,PKNAME''] s;
          rows = splitLines out
      in (foldl (childRow base) [] rows, s1))"

definition detectNewPartitionNode ::
  "'w host \<Rightarrow> string \<Rightarrow> string list \<Rightarrow> 'w sys \<Rightarrow> string \<times> 'w sys" where
  "detectNewPartitionNode h devPath before s =
     (let (after, s1) = childPartitionsSet h devPath s;
          diff = qminus after before
      in if length diff \<noteq> 1 then ('''', s1)
         else (''/dev/'' @ hd diff, s1))"

definition detectNewOrFail ::
  "'w host \<Rightarrow> string \<Rightarrow> string list \<Rightarrow> string \<Rightarrow> (string \<Rightarrow> 'w sys \<Rightarrow> 'w sys)
     \<Rightarrow> 'w sys \<Rightarrow> 'w sys" where
  \<comment> \<open>Every call of detectNewPartitionNode in the source has the form
      \<^verbatim>\<open>node = detectNewPartitionNode(devPath, before);
      if (node.isEmpty()) { emit errorOccurred(msg); return; }\<close>
      followed by the rest of the strategy, here the continuation \<open>rest\<close>.\<close>
  "detectNewOrFail h devPath before msg rest s =
     (let (node, s1) = detectNewPartitionNode h devPath before s
      in if node = [] then emit (ErrorOccurred msg) s1 else rest node s1)"

subsection \<open>The disk of the running system\<close>

fun resolveHops :: "nat \<Rightarrow> 'w host \<Rightarrow> string \<Rightarrow> 'w sys \<Rightarrow> string \<times> 'w sys" where
  \<comment> \<open>the loop \<^verbatim>\<open>for (int hop = 0; hop < 6; ++hop)\<close> of resolveBaseDisk; the first argument
      is the number of hops left\<close>
  "resolveHops 0 h cur s = ('''', s)"
| "resolveHops (Suc n) h cur s =
     (let (out0, s1) = capture h [''lsblk'', ''-ln'', ''-o'', ''NAME,TYPE,PKNAME'', cur] s;
          out = trimmed out0
      in if out = [] then ('''', s1)
         else
           (let cols = splitWs out in
            if length cols \<ge> 2 then
              (let name = cols ! 0;
                   type = cols ! 1;
                   pk = (if length cols \<ge> 3 then cols ! 2 else '''')
               in if type = ''disk'' then (''/dev/'' @ name, s1)
                  else if pk \<noteq> [] then resolveHops n h (''/dev/'' @ pk) s1
                  else ('''', s1))
            else ('''', s1)))"

definition resolveBaseDisk :: "'w host \<Rightarrow> string \<Rightarrow> 'w sys \<Rightarrow> string \<times> 'w sys" where
  "resolveBaseDisk h devOrMapper s =
     (if \<not> startsWith devOrMapper ''/dev/'' then ('''', s)
      else resolveHops 6 h devOrMapper s)"

fun readLines :: "string \<Rightarrow> string list" where
  \<comment> \<open>the lines that QFile::readLine yields, each with its newline\<close>
  "readLines [] = []"
| "readLines (c # cs) =
     (if c = CHR 0x0A then [c] # readLines cs
      else (case readLines cs of l # ls \<Rightarrow> (c # l) # ls | [] \<Rightarrow> [[c]]))"

fun procMountsRoot :: "string list \<Rightarrow> string \<Rightarrow> string" where
  \<comment> \<open>the loop over /proc/mounts: the device of the first line mounted at /\<close>
  "procMountsRoot [] src = src"
| "procMountsRoot (line # ls) src =
     (let cols = splitKeep (CHR '' '') line
      in if length cols \<ge> 2 \<and> cols ! 1 = ''/'' then cols ! 0 else procMountsRoot ls src)"

definition rootSourceDevice :: "'w host \<Rightarrow> 'w sys \<Rightarrow> string \<times> 'w sys" where
  "rootSourceDevice h s =
     (let (out, s1) = capture h [''findmnt'', ''-no'', ''SOURCE'', ''/''] s;
          src = trimmed out;
          src = (if src = [] then
                   (case readFile h (world s1) ''/proc/mounts'' of
                      Some text \<Rightarrow> procMountsRoot (readLines text) src
                    | None \<Rightarrow> src)
                 else src)
      in if \<not> startsWith src ''/dev/'' \<and> (startsWith src ''UUID='' \<or> startsWith src ''LABEL='') then
           (let (r, s2) = (if startsWith src ''UUID=''
                           then capture h [''blkid'', ''-U'', mid src 5] s1
                           else capture h [''blkid'', ''-L'', mid src 6] s1);
                dev = trimmed r
            in (if startsWith dev ''/dev/'' then dev else src, s2))
         else (src, s1))"

definition isSystemDisk :: "'w host \<Rightarrow> string \<Rightarrow> 'w sys \<Rightarrow> bool \<times> 'w sys" where
  "isSystemDisk h devPath s =
     (let (rootSrc, s1) = rootSourceDevice h s
      in if rootSrc = [] then (False, s1)
         else
           (let (rootDisk, s2) = resolveBaseDisk h rootSrc s1;
                (targetDisk, s3) = resolveBaseDisk h devPath s2
            in if rootDisk = [] \<or> targetDisk = [] then (False, s3)
               else (canonicalFilePath h (world s3) rootDisk
                       = canonicalFilePath h (world s3) targetDisk, s3)))"

subsection \<open>The disk of the running system, as the specification describes it\<close>












subsection \<open>Detaching a device\<close>

definition invoke :: "'w host \<Rightarrow> string list \<Rightarrow> 'w sys \<Rightarrow> 'w sys" where
  \<comment> \<open>\<^verbatim>\<open>QProcess::execute(...)\<close> as a statement: the exit code is dropped\<close>
  "invoke h c s = snd (execute h c s)"

definition unmountStaging :: "'w host \<Rightarrow> 'w sys \<Rightarrow> 'w sys" where
  \<comment> \<open>the first three statements of safePreflightUnmounts and of bestEffortDetachDevice\<close>
  "unmountStaging h s =
     invoke h [''sudo'', ''umount'', ''-Rl'', ''/mnt'']
       (invoke h [''sudo'', ''umount'', ''-Rl'', ''/mnt/boot'']
         (invoke h [''sudo'', ''umount'', ''-Rl'', ''/mnt/boot/efi''] s))"

definition externalMount :: "string \<Rightarrow> bool" where
  "externalMount mp \<longleftrightarrow>
     mp \<noteq> [] \<and> (startsWith mp ''/media/'' \<or> startsWith mp ''/run/media/'' \<or> startsWith mp ''/mnt/'')"

definition preflightRow :: "'w host \<Rightarrow> 'w sys \<Rightarrow> string \<Rightarrow> 'w sys" where
  "preflightRow h s line =
     (let cols = splitWsKeep line in
      if length cols \<ge> 2 \<and> cols ! 1 = ''part'' then
        (let node = ''/dev/'' @ cols ! 0;
             mp = (if length cols \<ge> 3 then cols ! 2 else '''')
         in if externalMount mp then invoke h [''sudo'', ''umount'', ''-l'', node] s else s)
      else s)"

definition safePreflightUnmounts :: "'w host \<Rightarrow> string \<Rightarrow> 'w sys \<Rightarrow> 'w sys" where
  "safePreflightUnmounts h devPath s =
     (let s1 = unmountStaging h s;
          (sysDisk, s2) = isSystemDisk h devPath s1
      in if sysDisk then invoke h [''sudo'', ''udevadm'', ''settle''] s2
         else
           (let (out, s3) = capture h [''lsblk'', ''-ln'', ''-o'', ''NAME,TYPE,MOUNTPOINT'', devPath] s2;
                s4 = foldl (preflightRow h) s3 (splitLines out)
            in invoke h [''sudo'', ''udevadm'', ''settle''] s4))"

definition unmountParts :: "'w host \<Rightarrow> string list \<Rightarrow> 'w sys \<Rightarrow> 'w sys" where
  \<comment> \<open>1) ask udisks to unmount every partition of the disk\<close>
  "unmountParts h parts s =
     foldl (\<lambda>s pn. invoke h [''sudo'', ''udisksctl'', ''unmount'', ''-b'', ''/dev/'' @ pn] s) s parts"

definition swapoffParts :: "'w host \<Rightarrow> string list \<Rightarrow> 'w sys \<Rightarrow> 'w sys" where
  \<comment> \<open>2) swapoff the partitions named in /proc/swaps\<close>
  "swapoffParts h parts s =
     (let (swaps, s1) = capture h [''cat'', ''/proc/swaps''] s
      in foldl (\<lambda>s pn. if contains swaps (''/dev/'' @ pn)
                         then invoke h [''sudo'', ''swapoff'', ''/dev/'' @ pn] s else s) s1 parts)"

definition closeLuksRow :: "'w host \<Rightarrow> string list \<Rightarrow> 'w sys \<Rightarrow> string \<Rightarrow> 'w sys" where
  "closeLuksRow h partSet s r =
     (let cols = splitWs r in
      if length cols < 3 then s
      else if cols ! 1 = ''crypt'' \<and> cols ! 2 \<in> set partSet
           then invoke h [''sudo'', ''cryptsetup'', ''close'', ''/dev/'' @ cols ! 0] s
           else s)"

definition closeLuks :: "'w host \<Rightarrow> string list \<Rightarrow> 'w sys \<Rightarrow> 'w sys" where
  \<comment> \<open>3) close the LUKS mappings whose parent is a partition of the disk\<close>
  "closeLuks h parts s =
     (let (out, s1) = capture h [''lsblk'', ''-ln'', ''-o'', ''NAME,TYPE,PKNAME''] s
      in foldl (closeLuksRow h parts) s1 (splitLines out))"

definition vgRow ::
  "'w host \<Rightarrow> string list \<Rightarrow> string list \<times> 'w sys \<Rightarrow> string \<Rightarrow> string list \<times> 'w sys" where
  "vgRow h partSet acc r =
     (let (vgs, s) = acc;
          cols = splitWs r
      in if length cols < 3 then (vgs, s)
         else if (cols ! 1 = ''lvm'' \<or> cols ! 1 = ''dm'') \<and> cols ! 2 \<in> set partSet then
           (let (g, s1) = capture h [''lvs'', ''--noheadings'', ''-o'', ''vg_name'', ''/dev/'' @ cols ! 0] s;
                vg = trimmed g
            in (if vg \<noteq> [] then qinsert vg vgs else vgs, s1))
         else (vgs, s))"

definition deactivateVgs :: "'w host \<Rightarrow> string list \<Rightarrow> 'w sys \<Rightarrow> 'w sys" where
  \<comment> \<open>4) deactivate the LVM volume groups that live on the disk\<close>
  "deactivateVgs h parts s =
     (let (out, s1) = capture h [''lsblk'', ''-ln'', ''-o'', ''NAME,TYPE,PKNAME''] s;
          (vgs, s2) = foldl (vgRow h parts) ([], s1) (splitLines out)
      in foldl (\<lambda>s vg. invoke h [''sudo'', ''vgchange'', ''-an'', vg] s) s2 vgs)"

definition killHolders :: "'w host \<Rightarrow> string \<Rightarrow> string list \<Rightarrow> 'w sys \<Rightarrow> 'w sys" where
  \<comment> \<open>5) kill the processes that use the disk or one of its partitions\<close>
  "killHolders h devPath parts s =
     foldl (\<lambda>s n. invoke h [''sudo'', ''fuser'', ''-km'', n] s) s (devPath # map (\<lambda>pn. ''/dev/'' @ pn) parts)"

definition removeHolders :: "'w host \<Rightarrow> string list \<Rightarrow> 'w sys \<Rightarrow> 'w sys" where
  \<comment> \<open>6) remove the device-mapper holders of every partition\<close>
  "removeHolders h parts s =
     foldl (\<lambda>s pn.
        (case subdirectories h (world s) (''/sys/class/block/'' @ pn @ ''/holders'') of
           Some hs \<Rightarrow> foldl (\<lambda>s x. invoke h [''sudo'', ''dmsetup'', ''remove'', ''-f'', x] s) s hs
         | None \<Rightarrow> s)) s parts"

definition rereadAndPowerOff :: "'w host \<Rightarrow> string \<Rightarrow> 'w sys \<Rightarrow> 'w sys" where
  \<comment> \<open>7) reread the table, settle, and power the device off if it is removable\<close>
  "rereadAndPowerOff h devPath s =
     invoke h [''sudo'', ''udisksctl'', ''power-off'', ''-b'', devPath]
       (act (Sleep 1)
         (invoke h [''sudo'', ''udevadm'', ''settle'']
           (invoke h [''sudo'', ''partprobe'', devPath]
             (invoke h [''sudo'', ''blockdev'', ''--rereadpt'', devPath] s))))"

definition bestEffortDetachDevice :: "'w host \<Rightarrow> string \<Rightarrow> 'w sys \<Rightarrow> 'w sys" where
  "bestEffortDetachDevice h devPath s =
     (let s1 = unmountStaging h s;
          (sysDisk, s2) = isSystemDisk h devPath s1
      in if sysDisk then invoke h [''sudo'', ''udevadm'', ''settle''] s2
         else
           (let (parts, s3) = childPartitionsSet h devPath s2
            in rereadAndPowerOff h devPath
                 (removeHolders h parts
                   (killHolders h devPath parts
                     (deactivateVgs h parts
                       (closeLuks h parts
                         (swapoffParts h parts
                           (unmountParts h parts s3))))))))"

fun executed :: "action list \<Rightarrow> string list list" where
  \<comment> \<open>the commands of a journal that were run with QProcess::execute\<close>
  "executed [] = []"
| "executed (Execute c # as) = c # executed as"
| "executed (a # as) = executed as"

fun inspects :: "action \<Rightarrow> bool" where
  \<comment> \<open>a command started only to read the output of findmnt, blkid or lsblk\<close>
  "inspects (Start (p # args)) \<longleftrightarrow> p \<in> set [''findmnt'', ''blkid'', ''lsblk'']"
| "inspects a \<longleftrightarrow> False"

subsection \<open>Geometry\<close>

definition longLong :: "int \<Rightarrow> int" where
  \<comment> \<open>the value of a \<^verbatim>\<open>long long\<close> expression whose exact result is i: i itself when it fits
      64 bits; an overflow, undefined in C++, wraps around\<close>
  "longLong i = (i + 2 ^ 63) mod 2 ^ 64 - 2 ^ 63"

definition toLongLong :: "rat \<Rightarrow> int" where
  \<comment> \<open>\<^verbatim>\<open>static_cast<long long>(v)\<close>: the fraction is cut off. When the result does not fit
      64 bits the conversion is undefined in C++; x86-64 yields the least \<^verbatim>\<open>long long\<close>.\<close>
  "toLongLong v =
     (let t = (if v < 0 then \<lceil>v\<rceil> else \<lfloor>v\<rfloor>)
      in if - (2 ^ 63) \<le> t \<and> t < 2 ^ 63 then t else - (2 ^ 63))"

definition toULongLong :: "rat \<Rightarrow> nat" where
  \<comment> \<open>\<^verbatim>\<open>static_cast<qulonglong>(v)\<close>: the fraction is cut off. When the result is negative or
      does not fit 64 bits the conversion is undefined in C++; the model yields 0, as x86-64
      code does from \<open>2 ^ 64\<close> on.\<close>
  "toULongLong v = (if 0 \<le> v \<and> v < 2 ^ 64 then nat \<lfloor>v\<rfloor> else 0)"

definition norm :: "string \<Rightarrow> string" where
  "norm s = trimmed (replaceChar (CHR '','') (CHR ''.'') (removeStr True ''MiB'' s))"

definition parseMiBToBounds ::
  "'w host \<Rightarrow> string \<Rightarrow> string \<Rightarrow> int \<times> int \<Rightarrow> bool \<times> int \<times> int" where
  \<comment> \<open>The pair argument holds the values of the reference parameters startMiB and endMiB
      at the call; the result is the returned flag with their values at the return.\<close>
  "parseMiBToBounds h startStrIn endStrIn io =
     (case (toDouble h (norm startStrIn), toDouble h (norm endStrIn)) of
        (Some s, Some e) \<Rightarrow>
          (let startMiB = toLongLong (of_int \<lceil>s\<rceil>);
               endMiB = toLongLong (of_int \<lfloor>e\<rfloor>);
               startMiB = (if startMiB < 1 then 1 else startMiB)
           in (startMiB < endMiB, startMiB, endMiB))
      | _ \<Rightarrow> (False, io))"

subsection \<open>Partition nodes and boot partitions\<close>

definition toInt :: "string \<Rightarrow> int" where
  \<comment> \<open>QString::toInt() without its flag: surrounding white space and a sign are accepted;
      a text that is not a decimal number of 32 bits gives 0\<close>
  "toInt s =
     (let t = trimmed s;
          neg = startsWith t ''-'';
          u = (if neg \<or> startsWith t ''+'' then mid t 1 else t);
          v = (if neg then - int (digitsValue u) else int (digitsValue u))
      in if u \<noteq> [] \<and> list_all isDigit u \<and> - 2147483648 \<le> v \<and> v \<le> 2147483647 then v else 0)"

definition partitionNodeFor :: "string \<Rightarrow> int \<Rightarrow> string" where
  "partitionNodeFor baseName partNum =
     (if baseName \<noteq> [] \<and> isDigit (last baseName)
      then ''/dev/'' @ baseName @ ''p'' @ number partNum
      else ''/dev/'' @ baseName @ number partNum)"

definition partitionNumberFromPath :: "string \<Rightarrow> string" where
  "partitionNumberFromPath partPath =
     (let name = last (splitKeep (CHR ''/'') partPath)
      in rev (takeWhile isDigit (rev name)))"

definition espRow :: "string \<Rightarrow> string \<Rightarrow> bool" where
  \<comment> \<open>the test of the first loop of findExistingEsp on one row of lsblk\<close>
  "espRow base r \<longleftrightarrow>
     (let cols = splitWs r in
      length cols \<ge> 6 \<and> cols ! 1 = ''part'' \<and> cols ! 2 = base \<and>
      (toLower (cols ! 3) = ''c12a7328-f81f-11d2-ba4b-00a0c93ec93b''
       \<or> contains (toLower (cols ! 4)) ''esp''
       \<or> contains (toLower (cols ! 4)) ''efi system''
       \<or> toLower (cols ! 5) = ''vfat'' \<or> toLower (cols ! 5) = ''fat32''))"

definition espFlagLine :: "string \<Rightarrow> bool" where
  \<comment> \<open>the test of the second loop of findExistingEsp on one line of parted -m\<close>
  "espFlagLine line \<longleftrightarrow>
     (let cols = splitKeep (CHR '':'') line in
      length cols \<ge> 7 \<and> cols ! 0 \<noteq> [] \<and> isDigit (hd (cols ! 0)) \<and> containsCI (cols ! 6) ''esp'')"

definition findExistingEsp :: "'w host \<Rightarrow> string \<Rightarrow> string \<Rightarrow> 'w sys \<Rightarrow> string \<times> 'w sys" where
  "findExistingEsp h partedBin devPath s =
     (let (out, s1) = capture h [''lsblk'', ''-ln'', ''-o'', ''NAME,TYPE,PKNAME,PARTTYPE,PARTLABEL,FSTYPE''] s;
          rows = splitLines out;
          base = (if startsWith devPath ''/dev/'' then mid devPath 5 else devPath)
      in case filter (espRow base) rows of
           r # rs \<Rightarrow> (''/dev/'' @ splitWs r ! 0, s1)
         | [] \<Rightarrow>
           (let (pout, s2) = capture h [''sudo'', partedBin, devPath, ''-m'', ''unit'', ''MiB'', ''print''] s1
            in case filter espFlagLine (splitLines pout) of
                 line # ls \<Rightarrow> (partitionNodeFor base (toInt (splitKeep (CHR '':'') line ! 0)), s2)
               | [] \<Rightarrow> ('''', s2)))"

definition biosGrubLine :: "string \<Rightarrow> bool" where
  "biosGrubLine line \<longleftrightarrow>
     (let cols = splitKeep (CHR '':'') line in
      length cols \<ge> 7 \<and> cols ! 0 \<noteq> [] \<and> isDigit (hd (cols ! 0))
      \<and> contains (toLower (cols ! 6)) ''bios_grub'')"

definition findExistingBiosGrub :: "'w host \<Rightarrow> string \<Rightarrow> string \<Rightarrow> 'w sys \<Rightarrow> string \<times> 'w sys" where
  \<comment> \<open>Both returns inside the loop give partitionNodeFor(base, number.toInt()).\<close>
  "findExistingBiosGrub h partedBin devPath s =
     (let (out, s1) = capture h [''sudo'', partedBin, devPath, ''-m'', ''unit'', ''MiB'', ''print''] s;
          base = (if startsWith devPath ''/dev/'' then mid devPath 5 else devPath)
      in case filter biosGrubLine (splitLines out) of
           line # ls \<Rightarrow> (partitionNodeFor base (toInt (splitKeep (CHR '':'') line ! 0)), s1)
         | [] \<Rightarrow> ('''', s1))"

definition isPartitionVfat :: "'w host \<Rightarrow> string \<Rightarrow> 'w sys \<Rightarrow> bool \<times> 'w sys" where
  "isPartitionVfat h partPath s =
     (let (out, s1) = capture h [''lsblk'', ''-no'', ''FSTYPE'', partPath] s;
          fstype = toLower (trimmed out)
      in (fstype = ''vfat'' \<or> fstype = ''fat32'' \<or> fstype = ''msdos'', s1))"

subsection \<open>The mount-state file\<close>

definition targetStateFilePath :: string where
  "targetStateFilePath = ''/tmp/archaid-target.json''"

definition jsonString :: "string \<Rightarrow> string" where
  \<comment> \<open>a JSON string literal as QJsonDocument writes it, for texts without control
      characters: the quotation mark and the backslash are escaped\<close>
  "jsonString t =
     [CHR 0x22] @ concat (map (\<lambda>c. if c = CHR 0x22 \<or> c = CHR 0x5C then [CHR 0x5C, c] else [c]) t)
     @ [CHR 0x22]"

definition mountStateJson :: "string \<Rightarrow> string \<Rightarrow> string" where
  \<comment> \<open>\<^verbatim>\<open>QJsonDocument(obj).toJson(QJsonDocument::Compact)\<close>; a QJsonObject keeps its keys
      sorted, so esp comes before root\<close>
  "mountStateJson rootDev espDev =
     ''{'' @ (if espDev \<noteq> [] then jsonString ''esp'' @ '':'' @ jsonString espDev @ '','' else [])
     @ jsonString ''root'' @ '':'' @ jsonString rootDev @ ''}''"

definition recordTargetMountState :: "'w host \<Rightarrow> string \<Rightarrow> string \<Rightarrow> 'w sys \<Rightarrow> 'w sys" where
  \<comment> \<open>When the file cannot be opened the source only prints a warning.\<close>
  "recordTargetMountState h rootDev espDev s =
     (if \<not> openForWriting h (world s) targetStateFilePath then s
      else act (WriteFile targetStateFilePath (mountStateJson rootDev espDev @ [CHR 0x0A])) s)"

subsection \<open>Steps shared by the strategies\<close>

definition executeOrFail ::
  "'w host \<Rightarrow> string list \<Rightarrow> string \<Rightarrow> ('w sys \<Rightarrow> 'w sys) \<Rightarrow> 'w sys \<Rightarrow> 'w sys" where
  \<comment> \<open>\<^verbatim>\<open>if (QProcess::execute(...) != 0) { emit errorOccurred(msg); return; }\<close> followed by
      the rest of the strategy\<close>
  "executeOrFail h c msg rest s =
     (let (rc, s1) = execute h c s
      in if rc \<noteq> 0 then emit (ErrorOccurred msg) s1 else rest s1)"

definition refreshTable :: "'w host \<Rightarrow> string \<Rightarrow> 'w sys \<Rightarrow> 'w sys" where
  \<comment> \<open>\<^verbatim>\<open>partprobe devPath; udevadm settle; QThread::sleep(1)\<close>, which follows every mutation
      of the partition table\<close>
  "refreshTable h devPath s =
     act (Sleep 1)
       (invoke h [''sudo'', ''udevadm'', ''settle'']
         (invoke h [''sudo'', ''partprobe'', devPath] s))"

definition mkpart :: "string \<Rightarrow> string \<Rightarrow> string list \<Rightarrow> string list" where
  \<comment> \<open>the argument list of \<^verbatim>\<open>sudo parted devPath --script mkpart primary ...\<close>\<close>
  "mkpart partedBin devPath args = [''sudo'', partedBin, devPath, ''--script'', ''mkpart'', ''primary''] @ args"

subsection \<open>The worker and the free-space strategy\<close>

datatype InstallMode = WipeDrive | UsePartition | UseFreeSpace

record worker =
  selectedDrive :: string
  mode :: InstallMode
  targetPartition :: string
  efiInstall :: bool

text \<open>
  Log texts are kept as in the source, with its two non-ASCII characters written in ASCII:
  the ellipsis as three dots and the arrow as \<^verbatim>\<open>->\<close>.
\<close>

definition toDouble0 :: "'w host \<Rightarrow> string \<Rightarrow> rat" where
  \<comment> \<open>\<^verbatim>\<open>s.toDouble()\<close> without the flag: 0.0 when the text is not a number\<close>
  "toDouble0 h t = (case toDouble h t of Some v \<Rightarrow> v | None \<Rightarrow> 0)"

definition miB :: "rat \<Rightarrow> string" where
  \<comment> \<open>the lambda miB of createFromFreeSpace\<close>
  "miB v = showNat (toULongLong (v + 1 / 2)) @ ''MiB''"

definition toMiBnum :: "'w host \<Rightarrow> string \<Rightarrow> rat" where
  \<comment> \<open>\<^verbatim>\<open>s.remove(QRegularExpression("[^0-9\\.]")); return s.toDouble();\<close>\<close>
  "toMiBnum h t = toDouble0 h (filter (\<lambda>c. isDigit c \<or> c = CHR ''.'') t)"

definition stripMiB :: "'w host \<Rightarrow> string \<Rightarrow> rat" where
  "stripMiB h t = toDouble0 h (removeStr True ''MiB'' t)"

definition selectedExtent :: "'w host \<Rightarrow> string \<Rightarrow> rat \<times> rat" where
  \<comment> \<open>selStartMiB and selEndMiB, read from a target of the form \<^verbatim>\<open>__FREE__:start:end\<close>\<close>
  "selectedExtent h target =
     (if startsWith target ''__FREE__:'' then
        (let t = splitKeep (CHR '':'') target
         in if length t \<ge> 3 then (toDouble0 h (t ! 1), toDouble0 h (t ! 2)) else (- 1, - 1))
      else (- 1, - 1))"

definition freeRow :: "'w host \<Rightarrow> rat \<times> rat \<times> rat \<Rightarrow> string \<Rightarrow> rat \<times> rat \<times> rat" where
  \<comment> \<open>the body of the loop over the lines of \<^verbatim>\<open>parted -m print free\<close>; the state is
      (bestSize, bestStart, bestEnd)\<close>
  "freeRow h best lRaw =
     (let (bestSize, bestStart, bestEnd) = best;
          l = trimmed lRaw
      in if l = [] then best
         else if startsWith l ''BYT'' then best
         else if startsWith l ''/dev/'' then best
         else
           (let cols = splitKeep (CHR '':'') l in
            if length cols < 4 then best
            else if \<not> list_ex (\<lambda>c. toLower c = ''free'') cols then best
            else
              (let s = toMiBnum h (cols ! 1);
                   e = toMiBnum h (cols ! 2);
                   z = toMiBnum h (cols ! 3)
               in if \<not> (z > bestSize \<and> e > s) then best else (z, s, e))))"

definition largestFree :: "'w host \<Rightarrow> string list \<Rightarrow> rat \<times> rat \<times> rat" where
  "largestFree h lines = foldl (freeRow h) (0, - 1, - 1) lines"

definition formatRootEfi :: "'w host \<Rightarrow> string \<Rightarrow> string \<Rightarrow> 'w sys \<Rightarrow> 'w sys" where
  \<comment> \<open>createFromFreeSpace, EFI mode, from \<^verbatim>\<open>emit logMessage("Formatting root as ext4...")\<close>
      to the end of the branch\<close>
  "formatRootEfi h espPart rootPart s =
     executeOrFail h [''sudo'', ''mkfs.ext4'', ''-F'', rootPart] ''Failed to format root.''
       (\<lambda>s. emit InstallComplete
          (invoke h [''sudo'', ''mount'', espPart, ''/mnt/boot/efi'']
            (invoke h [''sudo'', ''mkdir'', ''-p'', ''/mnt/boot/efi'']
              (invoke h [''sudo'', ''mount'', rootPart, ''/mnt'']
                (emit (LogMessage ''Mounting partitions...'')
                  (invoke h [''sudo'', ''e2fsck'', ''-f'', rootPart] s))))))
       (emit (LogMessage ''Formatting root as ext4...'') s)"

definition finishEfi :: "'w host \<Rightarrow> bool \<Rightarrow> string \<Rightarrow> string \<Rightarrow> 'w sys \<Rightarrow> 'w sys" where
  \<comment> \<open>createFromFreeSpace, EFI mode, from \<^verbatim>\<open>// Format/mount:\<close> on\<close>
  "finishEfi h createdNewEsp espPart rootPart s =
     (if createdNewEsp then
        executeOrFail h [''sudo'', ''mkfs.fat'', ''-F32'', espPart] ''Failed to format new ESP.''
          (formatRootEfi h espPart rootPart) (emit (LogMessage ''Formatting new ESP as FAT32...'') s)
      else formatRootEfi h espPart rootPart (emit (LogMessage ''Reusing existing ESP (will not format) ...'') s))"

definition createRootBios :: "'w host \<Rightarrow> string \<Rightarrow> string \<Rightarrow> rat \<Rightarrow> rat \<Rightarrow> 'w sys \<Rightarrow> 'w sys" where
  \<comment> \<open>createFromFreeSpace, the block \<^verbatim>\<open>// BIOS path: single ext4 root in the free extent\<close>\<close>
  "createRootBios h partedBin devPath startMiB endMiB s =
     (let (before, s1) = childPartitionsSet h devPath s;
          rootStart = miB startMiB;
          rootEnd = miB (endMiB - 1)
      in executeOrFail h (mkpart partedBin devPath [''ext4'', rootStart, rootEnd])
           ''Failed to create root partition (free space).''
           (\<lambda>s. detectNewOrFail h devPath before ''Could not uniquely detect new root partition.''
              (\<lambda>rootPartNew s.
                 executeOrFail h [''sudo'', ''mkfs.ext4'', ''-F'', rootPartNew] ''Failed to format root.''
                   (\<lambda>s. executeOrFail h [''sudo'', ''mount'', rootPartNew, ''/mnt'']
                      ''Failed to mount root at /mnt.''
                      (emit InstallComplete)
                      (emit (LogMessage ''Mounting root partition...'')
                        (invoke h [''sudo'', ''e2fsck'', ''-f'', rootPartNew] s)))
                   (emit (LogMessage ''Formatting root as ext4...'') s))
              (refreshTable h devPath s))
           s1)"

definition reuseEsp ::
  "'w host \<Rightarrow> string \<Rightarrow> string \<Rightarrow> rat \<Rightarrow> rat \<Rightarrow> string \<Rightarrow> 'w sys \<Rightarrow> 'w sys" where
  \<comment> \<open>createFromFreeSpace, EFI mode, the branch of an existing ESP\<close>
  "reuseEsp h partedBin devPath startMiB endMiB existingEsp s =
     (let espPart = existingEsp;
          s1 = emit (LogMessage (''Found existing ESP: '' @ espPart)) s;
          (vfat, s2) = isPartitionVfat h espPart s1
      in if \<not> vfat then
           emit (ErrorOccurred (''Existing ESP ('' @ espPart @ '') is not FAT32. Refusing to modify it.'')) s2
         else
           (let (before, s3) = childPartitionsSet h devPath s2;
                rootStart = miB startMiB;
                rootEnd = miB (endMiB - 1)
            in executeOrFail h (mkpart partedBin devPath [''ext4'', rootStart, rootEnd])
                 ''Failed to create root partition (free space).''
                 (\<lambda>s. detectNewOrFail h devPath before ''Could not uniquely detect new root partition.''
                    (\<lambda>rootPart. finishEfi h False espPart rootPart)
                    (refreshTable h devPath s))
                 s3))"

definition createEsp :: "'w host \<Rightarrow> string \<Rightarrow> string \<Rightarrow> rat \<Rightarrow> rat \<Rightarrow> 'w sys \<Rightarrow> 'w sys" where
  \<comment> \<open>createFromFreeSpace, EFI mode, the branch without an existing ESP\<close>
  "createEsp h partedBin devPath startMiB endMiB s =
     (let (beforeEsp, s1) = childPartitionsSet h devPath s;
          espStart = miB startMiB;
          espEnd = miB (startMiB + 512)
      in executeOrFail h (mkpart partedBin devPath [''fat32'', espStart, espEnd])
           ''Failed to create ESP (free space).''
           (\<lambda>s. detectNewOrFail h devPath beforeEsp ''Could not uniquely detect new ESP.''
              (\<lambda>espPart s.
                 (let espNum = partitionNumberFromPath espPart
                  in if espNum = [] then emit (ErrorOccurred ''Could not determine ESP partition number.'') s
                     else
                       (let s2 = invoke h [''sudo'', partedBin, devPath, ''--script'', ''set'', espNum, ''esp'', ''on'']
                                   (invoke h [''sudo'', partedBin, devPath, ''--script'', ''name'', espNum, ''ESP''] s);
                            (beforeRoot, s3) = childPartitionsSet h devPath s2;
                            rootStart = espEnd;
                            rootEnd = miB (endMiB - 1)
                        in executeOrFail h (mkpart partedBin devPath [''ext4'', rootStart, rootEnd])
                             ''Failed to create root partition (free space).''
                             (\<lambda>s. detectNewOrFail h devPath beforeRoot
                                ''Could not uniquely detect new root partition.''
                                (\<lambda>rootPart. finishEfi h True espPart rootPart)
                                (refreshTable h devPath s))
                             s3)))
              (refreshTable h devPath s))
           s1)"

definition provisionExtent ::
  "'w host \<Rightarrow> worker \<Rightarrow> string \<Rightarrow> string \<Rightarrow> string \<Rightarrow> string \<Rightarrow> 'w sys \<Rightarrow> 'w sys" where
  \<comment> \<open>createFromFreeSpace from \<^verbatim>\<open>// Numeric for arithmetic\<close> on, once bestStartStr and
      bestEndStr are chosen\<close>
  "provisionExtent h wk partedBin devPath bestStartStr bestEndStr s =
     (let startMiB = stripMiB h bestStartStr;
          endMiB = stripMiB h bestEndStr
      in if endMiB \<le> startMiB + 10 then emit (ErrorOccurred ''Selected free space is too small.'') s
         else
           (let (baseline, s1) = childPartitionsSet h devPath s
            in if efiInstall wk then
                 (let (existingEsp, s2) = findExistingEsp h partedBin devPath s1
                  in if existingEsp \<noteq> [] then reuseEsp h partedBin devPath startMiB endMiB existingEsp s2
                     else createEsp h partedBin devPath startMiB endMiB s2)
               else createRootBios h partedBin devPath startMiB endMiB s1))"

definition createFromFreeSpace :: "'w host \<Rightarrow> worker \<Rightarrow> string \<Rightarrow> string \<Rightarrow> 'w sys \<Rightarrow> 'w sys" where
  "createFromFreeSpace h wk partedBin devPath s =
     (let (selStartMiB, selEndMiB) = selectedExtent h (targetPartition wk);
          s1 = emit (LogMessage ''Searching for free space...'') s;
          (out, s2) = capture h [''sudo'', partedBin, devPath, ''-m'', ''unit'', ''MiB'', ''print'', ''free''] s1;
          lines = splitLines out
      in if selStartMiB > 0 \<and> selEndMiB > selStartMiB then
           (let bestStartStr = miB selStartMiB;
                bestEndStr = miB selEndMiB
            in provisionExtent h wk partedBin devPath bestStartStr bestEndStr
                 (emit (LogMessage (''Using selected free extent: '' @ bestStartStr @ '' -> '' @ bestEndStr)) s2))
         else
           (let (bestSize, bestStart, bestEnd) = largestFree h lines
            in if bestStart < 0 then emit (ErrorOccurred ''No suitable free space found.'') s2
               else
                 (let bestStartStr = miB bestStart;
                      bestEndStr = miB bestEnd
                  in provisionExtent h wk partedBin devPath bestStartStr bestEndStr
                       (emit (LogMessage (''Using largest free extent: '' @ bestStartStr @ '' -> '' @ bestEndStr)) s2))))"

subsection \<open>The selected-partition strategy\<close>

definition numClass :: "char \<Rightarrow> bool" where
  \<comment> \<open>the class \<^verbatim>\<open>[0-9.]\<close>\<close>
  "numClass c \<longleftrightarrow> isDigit c \<or> c = CHR ''.''"

definition matchPartLine :: "string \<Rightarrow> string \<Rightarrow> (string \<times> string) option" where
  \<comment> \<open>A match of \<^verbatim>\<open>\s*\<close> partNum \<^verbatim>\<open>\s+([0-9.]+)MiB\s+([0-9.]+)MiB\<close> that begins where the
      text begins, with its two captures. Each repetition is followed by a character outside
      its class, so the only candidate takes the longest run every time.\<close>
  "matchPartLine partNum t =
     (let t1 = dropWhile isSpace t in
      if \<not> startsWith t1 partNum then None
      else
        (let t2 = drop (length partNum) t1;
             t3 = dropWhile isSpace t2
         in if length t3 = length t2 then None
            else
              (let a = takeWhile numClass t3;
                   t4 = dropWhile numClass t3
               in if a = [] \<or> \<not> startsWith t4 ''MiB'' then None
                  else
                    (let t5 = drop 3 t4;
                         t6 = dropWhile isSpace t5
                     in if length t6 = length t5 then None
                        else
                          (let b = takeWhile numClass t6;
                               t7 = dropWhile numClass t6
                           in if b = [] \<or> \<not> startsWith t7 ''MiB'' then None
                              else Some (a, b))))))"

function partLineScan :: "string \<Rightarrow> string \<Rightarrow> (string \<times> string) option" where
  \<comment> \<open>the first match of the multi-line pattern: it is tried at the start of the text and
      after every newline, from left to right\<close>
  "partLineScan partNum t =
     (case matchPartLine partNum t of
        Some r \<Rightarrow> Some r
      | None \<Rightarrow>
          (case dropWhile (\<lambda>c. c \<noteq> CHR 0x0A) t of
             [] \<Rightarrow> None
           | c # rest \<Rightarrow> partLineScan partNum rest))"
  by pat_completeness auto
termination
proof (relation "measure (\<lambda>(partNum, t). length t)")
  show "wf (measure (\<lambda>(partNum, t). length t))" by simp
next
  fix partNum t :: string and c rest
  assume "dropWhile (\<lambda>c. c \<noteq> CHR 0x0A) t = c # rest"
  then have "length (c # rest) \<le> length t"
    by (metis length_dropWhile_le)
  then show "((partNum, rest), (partNum, t)) \<in> measure (\<lambda>(partNum, t). length t)"
    by simp
qed

declare partLineScan.simps [simp del]

definition trailingNumber :: "string \<Rightarrow> string" where
  \<comment> \<open>the capture of \<^verbatim>\<open>(\d+)$\<close>, empty when there is no match; \<^verbatim>\<open>$\<close> also matches before
      a newline that ends the text\<close>
  "trailingNumber name =
     (let n = (if name \<noteq> [] \<and> last name = CHR 0x0A then butlast name else name)
      in rev (takeWhile isDigit (rev n)))"

definition getPartitionGeometry ::
  "'w host \<Rightarrow> string \<Rightarrow> string \<Rightarrow> string \<times> string \<Rightarrow> 'w sys \<Rightarrow> (bool \<times> string \<times> string) \<times> 'w sys" where
  \<comment> \<open>The parameters targetPartition and selectedDrive of the source are called target and
      drive here. The pair argument holds startMiB and endMiB at the call, the result their
      values at the return.\<close>
  "getPartitionGeometry h target drive io s =
     (let partName = (if startsWith target ''/dev/'' then mid target 5 else target);
          partNum = trailingNumber partName
      in if partNum = [] then
           ((False, io), emit (LogMessage (''DEBUG: Could not extract partition number from '' @ partName)) s)
         else
           (let s1 = emit (LogMessage (''DEBUG: Extracted partition number: '' @ partNum)) s;
                (output, s2) = capture h [''sudo'', ''parted'', ''/dev/'' @ drive, ''unit'', ''MiB'', ''print''] s1;
                s3 = emit (LogMessage (''DEBUG: parted output:'' @ [CHR 0x0A] @ output))
                       (emit (LogMessage (''DEBUG: parted output:'' @ [CHR 0x0A] @ output)) s2)
            in case partLineScan partNum output of
                 Some (startMiB, endMiB) \<Rightarrow>
                   ((True, startMiB, endMiB),
                    emit (LogMessage (''DEBUG: Partition geometry startMiB='' @ startMiB @ '' endMiB='' @ endMiB)) s3)
               | None \<Rightarrow>
                   ((False, io),
                    emit (LogMessage (''DEBUG: Could not parse partition geometry for partition number '' @ partNum)) s3)))"

definition recordAndComplete :: "'w host \<Rightarrow> string \<Rightarrow> string \<Rightarrow> 'w sys \<Rightarrow> 'w sys" where
  \<comment> \<open>\<^verbatim>\<open>recordTargetMountState(rootDev, espDev); emit installComplete(); return;\<close>\<close>
  "recordAndComplete h rootDev espDev s = emit InstallComplete (recordTargetMountState h rootDev espDev s)"

definition mountRootAndEsp ::
  "'w host \<Rightarrow> bool \<Rightarrow> string \<Rightarrow> string \<Rightarrow> 'w sys \<Rightarrow> 'w sys" where
  \<comment> \<open>recreateFromSelectedPartition, EFI mode, from \<^verbatim>\<open>emit logMessage("Mounting root
      partition...")\<close> to the return; the flag says that the result of mounting the ESP is
      checked, which the source does for a reused ESP only\<close>
  "mountRootAndEsp h checked rootPart espPart s =
     executeOrFail h [''sudo'', ''mount'', rootPart, ''/mnt''] ''Failed to mount root at /mnt.''
       (\<lambda>s. (let s1 = invoke h [''sudo'', ''mkdir'', ''-p'', ''/mnt/boot/efi''] s
              in if checked then
                   executeOrFail h [''sudo'', ''mount'', espPart, ''/mnt/boot/efi'']
                     ''Failed to mount existing ESP at /mnt/boot/efi.''
                     (recordAndComplete h rootPart espPart) s1
                 else recordAndComplete h rootPart espPart
                        (invoke h [''sudo'', ''mount'', espPart, ''/mnt/boot/efi''] s1)))
       (emit (LogMessage ''Mounting root partition...'') s)"

definition formatAndMountRoot :: "'w host \<Rightarrow> string \<Rightarrow> 'w sys \<Rightarrow> 'w sys" where
  \<comment> \<open>recreateFromSelectedPartition, BIOS mode: format the new root, mount it, record it\<close>
  "formatAndMountRoot h rootDev s =
     executeOrFail h [''sudo'', ''mkfs.ext4'', ''-F'', rootDev] ''Failed to format root.''
       (\<lambda>s. executeOrFail h [''sudo'', ''mount'', rootDev, ''/mnt''] ''Failed to mount root at /mnt.''
          (recordAndComplete h rootDev '''')
          (emit (LogMessage ''Mounting root partition...'')
            (invoke h [''sudo'', ''e2fsck'', ''-f'', rootDev] s)))
       s"

definition recreateEfi ::
  "'w host \<Rightarrow> string \<Rightarrow> string \<Rightarrow> int \<Rightarrow> int \<Rightarrow> 'w sys \<Rightarrow> 'w sys" where
  \<comment> \<open>recreateFromSelectedPartition, the branch \<^verbatim>\<open>if (efiInstall)\<close> after the deletion\<close>
  "recreateEfi h partedBin devPath startMiB endMiB s =
     (let (existingEsp, s1) = findExistingEsp h partedBin devPath s
      in if existingEsp \<noteq> [] then
           (let (before, s2) = childPartitionsSet h devPath s1;
                rootStart = number startMiB @ ''MiB'';
                rootEnd = number (longLong (endMiB - 1)) @ ''MiB''
            in executeOrFail h (mkpart partedBin devPath [''ext4'', rootStart, rootEnd])
                 ''Failed to create root (existing partition).''
                 (\<lambda>s. detectNewOrFail h devPath before ''Could not uniquely detect new root partition.''
                    (\<lambda>rootPart s.
                       executeOrFail h [''sudo'', ''mkfs.ext4'', ''-F'', rootPart] ''Failed to format root.''
                         (\<lambda>s. mountRootAndEsp h True rootPart existingEsp
                                 (invoke h [''sudo'', ''e2fsck'', ''-f'', rootPart] s))
                         s)
                    (refreshTable h devPath s))
                 s2)
         else
           (let (baseline, s2) = childPartitionsSet h devPath s1;
                espStart = number startMiB @ ''MiB'';
                espEnd = number (longLong (startMiB + 512)) @ ''MiB''
            in executeOrFail h (mkpart partedBin devPath [''fat32'', espStart, espEnd])
                 ''Failed to create ESP (existing partition).''
                 (\<lambda>s. detectNewOrFail h devPath baseline ''Could not uniquely detect new ESP.''
                    (\<lambda>espPart s.
                       (let espNum = partitionNumberFromPath espPart
                        in if espNum = [] then
                             emit (ErrorOccurred ''Could not determine ESP partition number.'') s
                           else
                             (let s3 = invoke h [''sudo'', partedBin, devPath, ''--script'', ''set'', espNum, ''esp'', ''on'']
                                         (invoke h [''sudo'', partedBin, devPath, ''--script'', ''name'', espNum, ''ESP''] s);
                                  (beforeRoot, s4) = childPartitionsSet h devPath s3;
                                  rootStart = espEnd;
                                  rootEnd = number (longLong (endMiB - 1)) @ ''MiB''
                              in executeOrFail h (mkpart partedBin devPath [''ext4'', rootStart, rootEnd])
                                   ''Failed to create root (existing partition).''
                                   (\<lambda>s. detectNewOrFail h devPath beforeRoot
                                      ''Could not uniquely detect new root partition.''
                                      (\<lambda>rootPart s.
                                         executeOrFail h [''sudo'', ''mkfs.fat'', ''-F32'', espPart] ''Failed to format ESP.''
                                           (\<lambda>s. executeOrFail h [''sudo'', ''mkfs.ext4'', ''-F'', rootPart]
                                              ''Failed to format root.''
                                              (\<lambda>s. mountRootAndEsp h False rootPart espPart
                                                      (invoke h [''sudo'', ''e2fsck'', ''-f'', rootPart] s))
                                              s)
                                           s)
                                      (refreshTable h devPath s))
                                   s4)))
                    (refreshTable h devPath s))
                 s2))"

definition recreateBios ::
  "'w host \<Rightarrow> string \<Rightarrow> string \<Rightarrow> int \<Rightarrow> int \<Rightarrow> 'w sys \<Rightarrow> 'w sys" where
  \<comment> \<open>recreateFromSelectedPartition, the branch \<^verbatim>\<open>else\<close> after the deletion. In the source
      file the text of this branch is followed by stray copies of some of its own lines
      (the part that carves bios_grub occurs twice, with fragments in between that use
      variables out of their scope); the model takes the branch once: reuse of an existing
      bios_grub, else size check, bios_grub, root.\<close>
  "recreateBios h partedBin devPath startMiB endMiB s =
     (let (existingBios, s1) = findExistingBiosGrub h partedBin devPath s
      in if existingBios \<noteq> [] then
           (let s2 = emit (LogMessage (''Found existing bios_grub partition: '' @ existingBios)) s1;
                (before, s3) = childPartitionsSet h devPath s2;
                rootStart = number startMiB @ ''MiB'';
                rootEnd = number (longLong (endMiB - 1)) @ ''MiB''
            in executeOrFail h (mkpart partedBin devPath [''ext4'', rootStart, rootEnd])
                 ''Failed to create root (existing partition).''
                 (\<lambda>s. detectNewOrFail h devPath before ''Could not uniquely detect new root partition.''
                    (formatAndMountRoot h)
                    (refreshTable h devPath s))
                 s3)
         else
           (let biosEndMiB = longLong (startMiB + 2)
            in if biosEndMiB \<ge> endMiB then
                 emit (ErrorOccurred ''Selected partition is too small to host bios_grub and root partitions.'') s1
               else
                 (let biosStart = number startMiB @ ''MiB'';
                      biosEnd = number biosEndMiB @ ''MiB'';
                      (beforeBios, s2) = childPartitionsSet h devPath s1
                  in executeOrFail h (mkpart partedBin devPath [biosStart, biosEnd])
                       ''Failed to create bios_grub partition.''
                       (\<lambda>s. detectNewOrFail h devPath beforeBios
                          ''Could not detect newly created bios_grub partition.''
                          (\<lambda>biosPart s.
                             (let biosNum = partitionNumberFromPath biosPart
                              in if biosNum = [] then
                                   emit (ErrorOccurred ''Could not determine bios_grub partition number.'') s
                                 else
                                   executeOrFail h
                                     [''sudo'', partedBin, devPath, ''--script'', ''set'', biosNum, ''bios_grub'', ''on'']
                                     ''Failed to flag bios_grub partition.''
                                     (\<lambda>s.
                                        (let s3 = emit (LogMessage (''Created bios_grub partition: '' @ biosPart)) s;
                                             rootStartMiB = biosEndMiB
                                         in if endMiB \<le> longLong (rootStartMiB + 1) then
                                              emit (ErrorOccurred
                                                ''Remaining space after bios_grub is insufficient for root partition.'') s3
                                            else
                                              (let rootStart = number rootStartMiB @ ''MiB'';
                                                   rootEnd = number (longLong (endMiB - 1)) @ ''MiB'';
                                                   (beforeRoot, s4) = childPartitionsSet h devPath s3
                                               in executeOrFail h (mkpart partedBin devPath [''ext4'', rootStart, rootEnd])
                                                    ''Failed to create root (existing partition).''
                                                    (\<lambda>s. detectNewOrFail h devPath beforeRoot
                                                       ''Could not uniquely detect new root partition.''
                                                       (formatAndMountRoot h)
                                                       (refreshTable h devPath s))
                                                    s4)))
                                     s))
                          (refreshTable h devPath s))
                       s2)))"

definition recreateFromSelectedPartition ::
  "'w host \<Rightarrow> worker \<Rightarrow> string \<Rightarrow> string \<Rightarrow> 'w sys \<Rightarrow> 'w sys" where
  "recreateFromSelectedPartition h wk partedBin devPath s =
     (let ((found, startStr, endStr), s1) =
            getPartitionGeometry h (targetPartition wk) (selectedDrive wk) ('''', '''') s
      in if \<not> found then emit (ErrorOccurred ''Could not query selected partition geometry (parted).'') s1
         else
           (let (ok, startMiB, endMiB) = parseMiBToBounds h startStr endStr (0, 0)
            in if \<not> ok then emit (ErrorOccurred ''Invalid geometry for selected partition.'') s1
               else
                 (let (isEsp, s2) =
                        (if efiInstall wk then
                           (let (existingEsp, s2) = findExistingEsp h partedBin devPath s1
                            in (existingEsp \<noteq> [] \<and>
                                canonicalFilePath h (world s2) (targetPartition wk)
                                  = canonicalFilePath h (world s2) existingEsp, s2))
                         else (False, s1))
                  in if isEsp then
                       emit (ErrorOccurred
                         ''Selected partition is the EFI System Partition. Please choose a different partition for root.'') s2
                     else
                       (let s3 = invoke h [''sudo'', ''umount'', ''-l'', targetPartition wk] s2;
                            partNum = partitionNumberFromPath (targetPartition wk)
                        in if partNum = [] then
                             emit (ErrorOccurred ''Could not determine selected partition number.'') s3
                           else
                             executeOrFail h [''sudo'', partedBin, devPath, ''--script'', ''rm'', partNum]
                               ''Failed to delete selected partition.''
                               (\<lambda>s. if efiInstall wk
                                     then recreateEfi h partedBin devPath startMiB endMiB (refreshTable h devPath s)
                                     else recreateBios h partedBin devPath startMiB endMiB (refreshTable h devPath s))
                               s3))))"

subsection \<open>The entry point\<close>

definition locatePartedBinary :: "'w host \<Rightarrow> 'w sys \<Rightarrow> string" where
  "locatePartedBinary h s =
     (let p = findExecutable h (world s) ''parted''
      in if p \<noteq> [] then p
         else (case filter (fileExists h (world s)) [''/usr/sbin/parted'', ''/sbin/parted''] of
                 path # ps \<Rightarrow> path
               | [] \<Rightarrow> ''''))"

definition partedScript :: "string \<Rightarrow> string \<Rightarrow> string list \<Rightarrow> string list" where
  \<comment> \<open>the argument list of \<^verbatim>\<open>sudo parted devPath --script ...\<close>\<close>
  "partedScript partedBin devPath args = [''sudo'', partedBin, devPath, ''--script''] @ args"

definition wipeMount :: "'w host \<Rightarrow> bool \<Rightarrow> string \<Rightarrow> string \<Rightarrow> 'w sys \<Rightarrow> 'w sys" where
  \<comment> \<open>the wipe block of InstallerWorker::run from \<^verbatim>\<open>e2fsck\<close> on: check, mount, record,
      complete\<close>
  "wipeMount h efi espPart rootPart s =
     (let s1 = invoke h [''sudo'', ''mount'', rootPart, ''/mnt'']
                 (emit (LogMessage ''Mounting new partitions...'')
                   (invoke h [''sudo'', ''e2fsck'', ''-f'', rootPart] s));
          s2 = (if efi then
                  invoke h [''sudo'', ''mount'', espPart, ''/mnt/boot/efi'']
                    (invoke h [''sudo'', ''mkdir'', ''-p'', ''/mnt/boot/efi''] s1)
                else s1)
      in emit InstallComplete (recordTargetMountState h rootPart (if efi then espPart else '''') s2))"

definition wipeFormatRoot :: "'w host \<Rightarrow> bool \<Rightarrow> string \<Rightarrow> string \<Rightarrow> 'w sys \<Rightarrow> 'w sys" where
  "wipeFormatRoot h efi espPart rootPart s =
     executeOrFail h [''sudo'', ''mkfs.ext4'', ''-F'', rootPart] ''Failed to format root partition.''
       (wipeMount h efi espPart rootPart)
       (emit (LogMessage ''Formatting root as ext4...'') s)"

definition wipeFinish :: "'w host \<Rightarrow> bool \<Rightarrow> string \<Rightarrow> 'w sys \<Rightarrow> 'w sys" where
  \<comment> \<open>the wipe block of InstallerWorker::run after the partitions are created: find them in
      the listing of lsblk, format, mount\<close>
  "wipeFinish h efi devPath s =
     (let s1 = refreshTable h devPath s;
          (out, s2) = capture h [''lsblk'', ''-ln'', ''-o'', ''NAME'', devPath] s1;
          parts = splitLines out
      in if length parts \<ge> 2 then
           (let espPart = (if efi then ''/dev/'' @ parts ! (length parts - 2) else '''');
                rootPart = ''/dev/'' @ last parts
            in if efi then
                 executeOrFail h [''sudo'', ''mkfs.fat'', ''-F32'', espPart] ''Failed to format ESP.''
                   (wipeFormatRoot h efi espPart rootPart)
                   (emit (LogMessage ''Formatting ESP as FAT32...'') s2)
               else wipeFormatRoot h efi espPart rootPart s2)
         else emit (ErrorOccurred ''Could not detect created partitions after wipe.'') s2)"

definition wipeCreate :: "'w host \<Rightarrow> bool \<Rightarrow> string \<Rightarrow> string \<Rightarrow> 'w sys \<Rightarrow> 'w sys" where
  \<comment> \<open>the wipe block of InstallerWorker::run after the label is written: boot partition and
      root partition\<close>
  "wipeCreate h efi partedBin devPath s =
     (let s1 = refreshTable h devPath s
      in if efi then
           executeOrFail h (partedScript partedBin devPath [''mkpart'', ''primary'', ''fat32'', ''1MiB'', ''513MiB''])
             ''Failed to create/set ESP partition.''
             (executeOrFail h (partedScript partedBin devPath [''name'', ''1'', ''ESP''])
                ''Failed to create/set ESP partition.''
                (executeOrFail h (partedScript partedBin devPath [''set'', ''1'', ''esp'', ''on''])
                   ''Failed to create/set ESP partition.''
                   (executeOrFail h
                      (partedScript partedBin devPath [''mkpart'', ''primary'', ''ext4'', ''513MiB'', ''100%''])
                      ''Failed to create root partition.'' (wipeFinish h efi devPath))))
             s1
         else
           executeOrFail h (partedScript partedBin devPath [''mkpart'', ''primary'', ''1MiB'', ''3MiB''])
             ''Failed to create/set bios_grub partition.''
             (executeOrFail h (partedScript partedBin devPath [''set'', ''1'', ''bios_grub'', ''on''])
                ''Failed to create/set bios_grub partition.''
                (executeOrFail h
                   (partedScript partedBin devPath [''mkpart'', ''primary'', ''ext4'', ''3MiB'', ''100%''])
                   ''Failed to create root partition.'' (wipeFinish h efi devPath)))
             s1)"

definition wipeDrive :: "'w host \<Rightarrow> worker \<Rightarrow> string \<Rightarrow> string \<Rightarrow> 'w sys \<Rightarrow> 'w sys" where
  \<comment> \<open>the block \<^verbatim>\<open>if (mode == InstallMode::WipeDrive) { ... }\<close> of InstallerWorker::run,
      cut into wipeCreate, wipeFinish, wipeFormatRoot and wipeMount\<close>
  "wipeDrive h wk partedBin devPath s =
     executeOrFail h (partedScript partedBin devPath [''mklabel'', ''gpt''])
       ''Failed to create GPT partition table.''
       (wipeCreate h (efiInstall wk) partedBin devPath)
       (emit (LogMessage (if efiInstall wk then ''Preparing drive for EFI (GPT + ESP + root)''
                          else ''Preparing drive for BIOS/GRUB (GPT + bios_grub + root)'')) s)"

definition run :: "'w host \<Rightarrow> worker \<Rightarrow> 'w sys \<Rightarrow> 'w sys" where
  \<comment> \<open>InstallerWorker::run; the change of PATH at its start is not modelled\<close>
  "run h wk s =
     (let partedBin = locatePartedBinary h s
      in if partedBin = [] then emit (ErrorOccurred ''parted not found'') s
         else
           (let s1 = act (RemoveFile targetStateFilePath) s;
                devPath = ''/dev/'' @ selectedDrive wk;
                s2 = emit (LogMessage (''efiInstall = '' @ (if efiInstall wk then ''true'' else ''false''))) s1;
                s3 = safePreflightUnmounts h devPath (emit (LogMessage ''Preparing mounts...'') s2)
            in case mode wk of
                 WipeDrive \<Rightarrow> wipeDrive h wk partedBin devPath s3
               | UseFreeSpace \<Rightarrow> createFromFreeSpace h wk partedBin devPath s3
               | UsePartition \<Rightarrow> recreateFromSelectedPartition h wk partedBin devPath s3))"

definition chosenExtent :: "'w host \<Rightarrow> string \<Rightarrow> string list \<Rightarrow> (rat \<times> rat) option" where
  \<comment> \<open>the extent that createFromFreeSpace goes on with: the selected one when it is usable,
      else the largest free one of the listing, if any\<close>
  "chosenExtent h target lines =
     (let (selStartMiB, selEndMiB) = selectedExtent h target
      in if selStartMiB > 0 \<and> selEndMiB > selStartMiB then Some (selStartMiB, selEndMiB)
         else (let (bestSize, bestStart, bestEnd) = largestFree h lines
               in if bestStart < 0 then None else Some (bestStart, bestEnd)))"

definition readsDecimals :: "'w host \<Rightarrow> bool" where
  \<comment> \<open>the host's toDouble reads the decimal numbers that QString::number writes, as far
      as a double holds them exactly\<close>
  "readsDecimals h \<longleftrightarrow> (\<forall>n < 2 ^ 53. toDouble h (showNat n) = Some (rat_of_nat n))"

definition mkparts :: "action list \<Rightarrow> string list list" where
  \<comment> \<open>the partition creations of a journal: the executed commands whose parted verb is mkpart\<close>
  "mkparts j = filter (\<lambda>c. length c > 5 \<and> c ! 4 = ''mkpart'') (executed j)"

subsection \<open>Journal extensions\<close>

definition extendsBy :: "(action \<Rightarrow> bool) \<Rightarrow> 'w sys \<Rightarrow> 'w sys \<Rightarrow> bool" where
  \<comment> \<open>the second state has the journal of the first, followed by actions that satisfy P\<close>
  "extendsBy P s s' \<longleftrightarrow> (\<exists>qs. journal s' = journal s @ qs \<and> list_all P qs)"

subsection \<open>Example hosts\<close>

text \<open>
  Concrete hosts for evaluating the engine. \<open>decimalToDouble\<close> reads plain decimal
  notation (optional sign, digits, optional fraction) exactly; \<open>staticHost\<close> answers
  every command from a fixed table and never changes.
\<close>

definition decimalToDouble :: "string \<Rightarrow> rat option" where
  "decimalToDouble s =
     (let t = trimmed s;
          neg = startsWith t ''-'';
          u = (if neg \<or> startsWith t ''+'' then mid t 1 else t);
          ip = takeWhile isDigit u;
          r = dropWhile isDigit u;
          fp = (if startsWith r ''.'' then mid r 1 else r);
          v = rat_of_nat (digitsValue ip) + rat_of_nat (digitsValue fp) / 10 ^ length fp
      in if (ip \<noteq> [] \<or> fp \<noteq> []) \<and> (r = [] \<or> startsWith r ''.'') \<and> list_all isDigit fp
         then Some (if neg then - v else v)
         else None)"

definition staticHost :: "(string list \<Rightarrow> int \<times> string) \<Rightarrow> unit host" where
  "staticHost reply =
     \<lparr> process = (\<lambda>c w. (reply c, w)),
       canonicalFilePath = (\<lambda>w p. p),
       fileExists = (\<lambda>w p. True),
       findExecutable = (\<lambda>w n. ''/usr/bin/'' @ n),
       readFile = (\<lambda>w p. None),
       openForWriting = (\<lambda>w p. True),
       subdirectories = (\<lambda>w p. None),
       toDouble = decimalToDouble \<rparr>"

definition lsblkTwoParts :: "string list \<Rightarrow> int \<times> string" where
  "lsblkTwoParts c =
     (0, ''sda disk'' @ [CHR 0x0A] @ ''sda1 part sda'' @ [CHR 0x0A] @ ''sda2 part sda'' @ [CHR 0x0A]
         @ ''sdb disk'' @ [CHR 0x0A] @ ''sdb1 part sdb'' @ [CHR 0x0A])"

definition sys0 :: "unit sys" where
  "sys0 = \<lparr>world = (), journal = []\<rparr>"

definition nl :: string where
  "nl = [CHR 0x0A]"

definition twoDiskReply :: "string list \<Rightarrow> int \<times> string" where
  \<comment> \<open>A machine running from sda2, which its mount table names by UUID, with a second
      disk sdb that carries one partition.\<close>
  "twoDiskReply c =
     (if c = [''findmnt'', ''-no'', ''SOURCE'', ''/''] then (0, ''UUID=0a1b'' @ nl)
      else if c = [''blkid'', ''-U'', ''0a1b''] then (0, ''/dev/sda2'' @ nl)
      else if c = [''lsblk'', ''-ln'', ''-o'', ''NAME,TYPE,PKNAME'', ''/dev/sda2'']
        then (0, ''sda2 part sda'' @ nl)
      else if c = [''lsblk'', ''-ln'', ''-o'', ''NAME,TYPE,PKNAME'', ''/dev/sda'']
        then (0, ''sda  disk '' @ nl @ ''sda1 part sda'' @ nl @ ''sda2 part sda'' @ nl)
      else if c = [''lsblk'', ''-ln'', ''-o'', ''NAME,TYPE,PKNAME'', ''/dev/sdb'']
        then (0, ''sdb  disk '' @ nl @ ''sdb1 part sdb'' @ nl)
      else if c = [''lsblk'', ''-ln'', ''-o'', ''NAME,TYPE,PKNAME'']
        then (0, ''sda  disk '' @ nl @ ''sda1 part sda'' @ nl @ ''sda2 part sda'' @ nl
                 @ ''sdb  disk '' @ nl @ ''sdb1 part sdb'' @ nl)
      else (0, ''''))"





definition freshName :: "string list \<Rightarrow> string" where
  \<comment> \<open>the kernel name of the next partition of sdb: the lowest number not in use\<close>
  "freshName w =
     (case filter (\<lambda>n. n \<notin> set w)
             [''sdb1'', ''sdb2'', ''sdb3'', ''sdb4'', ''sdb5'', ''sdb6'', ''sdb7'', ''sdb8'', ''sdb9''] of
        n # ns \<Rightarrow> n
      | [] \<Rightarrow> ''sdb0'')"

definition sdbHost :: "(string list \<Rightarrow> bool) \<Rightarrow> (string list \<Rightarrow> string) \<Rightarrow> string list host" where
  \<comment> \<open>A machine with a target disk sdb whose state is the list of the kernel names of its
      partitions. \<^verbatim>\<open>parted mkpart\<close> adds a partition and \<^verbatim>\<open>parted rm\<close> removes one; the two
      lsblk listings that the engine uses for detection show the current partitions. Commands
      selected by \<open>fails\<close> change nothing and exit with 1; every other command exits with 0
      and prints what \<open>static\<close> says.\<close>
  "sdbHost fails static =
     \<lparr> process = (\<lambda>c w.
         if fails c then ((1, ''''), w)
         else if length c > 5 \<and> c ! 4 = ''mkpart'' then ((0, ''''), w @ [freshName w])
         else if length c = 6 \<and> c ! 4 = ''rm'' then ((0, ''''), filter (\<lambda>n. n \<noteq> ''sdb'' @ c ! 5) w)
         else if c = [''lsblk'', ''-ln'', ''-o'', ''NAME,TYPE,PKNAME'']
           then ((0, ''sdb  disk '' @ nl @ concat (map (\<lambda>n. n @ '' part sdb'' @ nl) w)), w)
         else if c = [''lsblk'', ''-ln'', ''-o'', ''NAME'', ''/dev/sdb'']
           then ((0, ''sdb'' @ nl @ concat (map (\<lambda>n. n @ nl) w)), w)
         else ((0, static c), w)),
       canonicalFilePath = (\<lambda>w p. p),
       fileExists = (\<lambda>w p. True),
       findExecutable = (\<lambda>w n. ''/usr/bin/'' @ n),
       readFile = (\<lambda>w p. None),
       openForWriting = (\<lambda>w p. True),
       subdirectories = (\<lambda>w p. None),
       toDouble = decimalToDouble \<rparr>"

definition rootOnSda :: "string list \<Rightarrow> string" where
  \<comment> \<open>the running system is on sda2; sdb is another disk\<close>
  "rootOnSda c = snd (twoDiskReply c)"

definition events :: "action list \<Rightarrow> event list" where
  \<comment> \<open>the errors and the completion signal of a journal, without the log messages\<close>
  "events j = concat (map (\<lambda>a. case a of Emit (LogMessage m) \<Rightarrow> [] | Emit e \<Rightarrow> [e] | _ \<Rightarrow> []) j)"

definition written :: "action list \<Rightarrow> (string \<times> string) list" where
  \<comment> \<open>the files written in a journal, with their contents\<close>
  "written j = concat (map (\<lambda>a. case a of WriteFile p t \<Rightarrow> [(p, t)] | _ \<Rightarrow> []) j)"

section \<open>Properties\<close>

lemma distinct_qinsert: "distinct xs \<Longrightarrow> distinct (qinsert x xs)"
  by (simp add: qinsert_def)

lemma distinct_childRow: "distinct out \<Longrightarrow> distinct (childRow base out r)"
  by (simp add: childRow_def Let_def distinct_qinsert)

lemma distinct_foldl_childRow: "distinct out \<Longrightarrow> distinct (foldl (childRow base) out rows)"
  by (induction rows arbitrary: out) (simp_all add: distinct_childRow)

lemma distinct_childPartitionsSet:
  "childPartitionsSet h devPath s = (after, s1) \<Longrightarrow> distinct after"
  by (auto simp: childPartitionsSet_def Let_def distinct_foldl_childRow split: prod.splits)

lemma set_qminus: "set (qminus a b) = set a - set b"
  by (auto simp: qminus_def)

lemma distinct_qminus: "distinct a \<Longrightarrow> distinct (qminus a b)"
  by (simp add: qminus_def)

lemma length_one_hd: "length xs = 1 \<Longrightarrow> xs = [hd xs]"
  by (cases xs) simp_all

subsection \<open>Journals only grow\<close>

lemma journal_capture: "journal (snd (capture h c s)) = journal s @ [Start c]"
  by (simp add: capture_def split: prod.splits)

lemma journal_invoke: "journal (invoke h c s) = journal s @ [Execute c]"
  by (simp add: invoke_def execute_def split: prod.splits)

lemma journal_execute: "journal (snd (execute h c s)) = journal s @ [Execute c]"
  by (simp add: execute_def split: prod.splits)

lemma journal_act: "journal (act a s) = journal s @ [a]"
  by (simp add: act_def)

lemma extendsBy_refl: "extendsBy P s s"
  by (simp add: extendsBy_def)

lemma extendsBy_trans: "extendsBy P s s1 \<Longrightarrow> extendsBy P s1 s2 \<Longrightarrow> extendsBy P s s2"
  by (auto simp: extendsBy_def)

lemma extendsBy_mono: "extendsBy P s s' \<Longrightarrow> (\<And>a. P a \<Longrightarrow> Q a) \<Longrightarrow> extendsBy Q s s'"
  by (auto simp: extendsBy_def list_all_iff)

lemma extendsBy_capture: "capture h c s = (out, s1) \<Longrightarrow> P (Start c) \<Longrightarrow> extendsBy P s s1"
  using journal_capture [of h c s] by (simp add: extendsBy_def)

lemma extendsBy_invoke: "P (Execute c) \<Longrightarrow> extendsBy P s (invoke h c s)"
  by (simp add: extendsBy_def journal_invoke)

lemma extendsBy_act: "P a \<Longrightarrow> extendsBy P s (act a s)"
  by (simp add: extendsBy_def journal_act)

lemma extendsBy_subset: "extendsBy P s s' \<Longrightarrow> set (journal s) \<subseteq> set (journal s')"
  by (auto simp: extendsBy_def)

lemma extendsBy_foldl:
  assumes "\<And>s x. x \<in> set xs \<Longrightarrow> extendsBy P s (f s x)"
  shows "extendsBy P s (foldl f s xs)"
  using assms
proof (induction xs arbitrary: s)
  case Nil
  show ?case by (simp add: extendsBy_refl)
next
  case (Cons x xs)
  have "extendsBy P s (f s x)" by (simp add: Cons.prems)
  moreover have "extendsBy P (f s x) (foldl f (f s x) xs)"
    by (rule Cons.IH) (simp add: Cons.prems)
  ultimately show ?case by (simp add: extendsBy_trans)
qed

lemma resolveHops_inspects:
  "resolveHops n h cur s = (d, s') \<Longrightarrow> extendsBy inspects s s'"
proof (induction n arbitrary: cur s)
  case 0
  then show ?case by (simp add: extendsBy_refl)
next
  case (Suc n)
  obtain out0 s1 where c: "capture h [''lsblk'', ''-ln'', ''-o'', ''NAME,TYPE,PKNAME'', cur] s = (out0, s1)"
    by (cases "capture h [''lsblk'', ''-ln'', ''-o'', ''NAME,TYPE,PKNAME'', cur] s")
  have e1: "extendsBy inspects s s1"
    by (rule extendsBy_capture [OF c]) simp
  from Suc.prems c have "s' = s1 \<or> (\<exists>cur'. resolveHops n h cur' s1 = (d, s'))"
    by (auto simp: Let_def split: if_splits)
  then show ?case
    using e1 Suc.IH extendsBy_trans by blast
qed

lemma resolveBaseDisk_inspects:
  "resolveBaseDisk h dev s = (d, s') \<Longrightarrow> extendsBy inspects s s'"
  by (auto simp: resolveBaseDisk_def extendsBy_refl resolveHops_inspects split: if_splits)

lemma extendsBy_capture_snd: "P (Start c) \<Longrightarrow> extendsBy P s (snd (capture h c s))"
  by (simp add: extendsBy_def journal_capture)

lemma rootSourceDevice_inspects:
  assumes "rootSourceDevice h s = (src, s')"
  shows "extendsBy inspects s s'"
proof -
  obtain out s1 where c: "capture h [''findmnt'', ''-no'', ''SOURCE'', ''/''] s = (out, s1)"
    by (cases "capture h [''findmnt'', ''-no'', ''SOURCE'', ''/''] s")
  have e1: "extendsBy inspects s s1"
    by (rule extendsBy_capture [OF c]) simp
  from assms c have "s' = s1 \<or> (\<exists>a r. s' = snd (capture h [''blkid'', a, r] s1))"
    by (auto simp: rootSourceDevice_def Let_def split: if_splits prod.splits) (metis snd_conv)+
  then show ?thesis
  proof
    assume "s' = s1" with e1 show ?thesis by simp
  next
    assume "\<exists>a r. s' = snd (capture h [''blkid'', a, r] s1)"
    then obtain a r where "s' = snd (capture h [''blkid'', a, r] s1)"
      by blast
    then have "extendsBy inspects s1 s'"
      by (simp add: extendsBy_capture_snd)
    with e1 show ?thesis by (rule extendsBy_trans)
  qed
qed

lemma isSystemDisk_inspects:
  assumes "isSystemDisk h devPath s = (b, s')"
  shows "extendsBy inspects s s'"
proof -
  obtain rootSrc s1 where r: "rootSourceDevice h s = (rootSrc, s1)"
    by (cases "rootSourceDevice h s")
  obtain rootDisk s2 where d1: "resolveBaseDisk h rootSrc s1 = (rootDisk, s2)"
    by (cases "resolveBaseDisk h rootSrc s1")
  obtain targetDisk s3 where d2: "resolveBaseDisk h devPath s2 = (targetDisk, s3)"
    by (cases "resolveBaseDisk h devPath s2")
  have e1: "extendsBy inspects s s1" using r by (rule rootSourceDevice_inspects)
  have e2: "extendsBy inspects s1 s2" using d1 by (rule resolveBaseDisk_inspects)
  have e3: "extendsBy inspects s2 s3" using d2 by (rule resolveBaseDisk_inspects)
  from assms r d1 d2 have "s' = s1 \<or> s' = s3"
    by (auto simp: isSystemDisk_def Let_def split: if_splits)
  then show ?thesis
    using e1 e2 e3 extendsBy_trans by blast
qed

lemmas extendsBy_trans_rule [trans] = extendsBy_trans

lemma executed_append: "executed (xs @ ys) = executed xs @ executed ys"
  by (induction xs rule: executed.induct) simp_all

lemma executed_inspects: "list_all inspects qs \<Longrightarrow> executed qs = []"
  by (induction qs rule: executed.induct) simp_all

lemma unmountStaging_journal:
  "journal (unmountStaging h s) = journal s @
     [Execute [''sudo'', ''umount'', ''-Rl'', ''/mnt/boot/efi''],
      Execute [''sudo'', ''umount'', ''-Rl'', ''/mnt/boot''],
      Execute [''sudo'', ''umount'', ''-Rl'', ''/mnt'']]"
  by (simp add: unmountStaging_def journal_invoke)

lemma grows_invoke: "extendsBy (\<lambda>a. True) s (invoke h c s)"
  by (simp add: extendsBy_invoke)

lemma grows_capture: "capture h c s = (out, s1) \<Longrightarrow> extendsBy (\<lambda>a. True) s s1"
  by (simp add: extendsBy_capture)

lemma grows_unmountParts: "extendsBy (\<lambda>a. True) s (unmountParts h parts s)"
  unfolding unmountParts_def by (rule extendsBy_foldl) (rule grows_invoke)

lemma grows_swapoffParts: "extendsBy (\<lambda>a. True) s (swapoffParts h parts s)"
proof -
  obtain swaps s1 where c: "capture h [''cat'', ''/proc/swaps''] s = (swaps, s1)"
    by (cases "capture h [''cat'', ''/proc/swaps''] s")
  have "extendsBy (\<lambda>a. True) s1 (foldl (\<lambda>s pn. if contains swaps (''/dev/'' @ pn)
          then invoke h [''sudo'', ''swapoff'', ''/dev/'' @ pn] s else s) s1 parts)"
    by (rule extendsBy_foldl) (simp add: grows_invoke extendsBy_refl)
  with grows_capture [OF c] show ?thesis
    by (simp add: swapoffParts_def c extendsBy_trans)
qed

lemma grows_closeLuksRow: "extendsBy (\<lambda>a. True) s (closeLuksRow h parts s r)"
  by (simp add: closeLuksRow_def Let_def grows_invoke extendsBy_refl)

lemma grows_closeLuks: "extendsBy (\<lambda>a. True) s (closeLuks h parts s)"
proof -
  obtain out s1 where c: "capture h [''lsblk'', ''-ln'', ''-o'', ''NAME,TYPE,PKNAME''] s = (out, s1)"
    by (cases "capture h [''lsblk'', ''-ln'', ''-o'', ''NAME,TYPE,PKNAME''] s")
  have "extendsBy (\<lambda>a. True) s1 (foldl (closeLuksRow h parts) s1 (splitLines out))"
    by (rule extendsBy_foldl) (rule grows_closeLuksRow)
  with grows_capture [OF c] show ?thesis
    by (simp add: closeLuks_def c extendsBy_trans)
qed

lemma grows_vgRow: "extendsBy (\<lambda>a. True) s (snd (vgRow h parts (vgs, s) r))"
proof -
  let ?c = "[''lvs'', ''--noheadings'', ''-o'', ''vg_name'', ''/dev/'' @ splitWs r ! 0]"
  have "snd (vgRow h parts (vgs, s) r) = s \<or> snd (vgRow h parts (vgs, s) r) = snd (capture h ?c s)"
    by (simp add: vgRow_def Let_def split: prod.splits)
  then show ?thesis
    by (auto simp: extendsBy_refl extendsBy_capture_snd)
qed

lemma grows_vgRows: "extendsBy (\<lambda>a. True) s (snd (foldl (vgRow h parts) (vgs, s) rows))"
proof (induction rows arbitrary: vgs s)
  case Nil
  show ?case by (simp add: extendsBy_refl)
next
  case (Cons r rows)
  obtain vgs1 s1 where v: "vgRow h parts (vgs, s) r = (vgs1, s1)"
    by (cases "vgRow h parts (vgs, s) r")
  have "extendsBy (\<lambda>a. True) s s1"
    using grows_vgRow [of s h parts vgs r] v by simp
  moreover have "extendsBy (\<lambda>a. True) s1 (snd (foldl (vgRow h parts) (vgs1, s1) rows))"
    by (rule Cons.IH)
  ultimately show ?case by (simp add: v extendsBy_trans)
qed

lemma grows_deactivateVgs: "extendsBy (\<lambda>a. True) s (deactivateVgs h parts s)"
proof -
  obtain out s1 where c: "capture h [''lsblk'', ''-ln'', ''-o'', ''NAME,TYPE,PKNAME''] s = (out, s1)"
    by (cases "capture h [''lsblk'', ''-ln'', ''-o'', ''NAME,TYPE,PKNAME''] s")
  obtain vgs s2 where f: "foldl (vgRow h parts) ([], s1) (splitLines out) = (vgs, s2)"
    by (cases "foldl (vgRow h parts) ([], s1) (splitLines out)")
  have e2: "extendsBy (\<lambda>a. True) s1 s2"
    using grows_vgRows [of s1 h parts "[]" "splitLines out"] f by simp
  have e3: "extendsBy (\<lambda>a. True) s2 (foldl (\<lambda>s vg. invoke h [''sudo'', ''vgchange'', ''-an'', vg] s) s2 vgs)"
    by (rule extendsBy_foldl) (rule grows_invoke)
  from grows_capture [OF c] e2 have "extendsBy (\<lambda>a. True) s s2" by (rule extendsBy_trans)
  from this e3 show ?thesis
    by (simp add: deactivateVgs_def c f extendsBy_trans)
qed

lemma grows_killHolders: "extendsBy (\<lambda>a. True) s (killHolders h devPath parts s)"
  unfolding killHolders_def by (rule extendsBy_foldl) (rule grows_invoke)

lemma grows_dmsetup:
  "extendsBy (\<lambda>a. True) s (foldl (\<lambda>s x. invoke h [''sudo'', ''dmsetup'', ''remove'', ''-f'', x] s) s hs)"
  by (rule extendsBy_foldl) (rule grows_invoke)

lemma grows_removeHolders: "extendsBy (\<lambda>a. True) s (removeHolders h parts s)"
  unfolding removeHolders_def
proof (rule extendsBy_foldl)
  fix s :: "'a sys" and pn
  show "extendsBy (\<lambda>a. True) s
          (case subdirectories h (world s) (''/sys/class/block/'' @ pn @ ''/holders'') of
             None \<Rightarrow> s
           | Some hs \<Rightarrow> foldl (\<lambda>s x. invoke h [''sudo'', ''dmsetup'', ''remove'', ''-f'', x] s) s hs)"
    by (cases "subdirectories h (world s) (''/sys/class/block/'' @ pn @ ''/holders'')")
       (simp_all only: option.case extendsBy_refl grows_dmsetup)
qed

lemma grows_rereadAndPowerOff: "extendsBy (\<lambda>a. True) s (rereadAndPowerOff h devPath s)"
  by (simp add: rereadAndPowerOff_def extendsBy_def journal_invoke journal_act)

lemma unmountParts_issues:
  "pn \<in> set parts \<Longrightarrow>
     Execute [''sudo'', ''udisksctl'', ''unmount'', ''-b'', ''/dev/'' @ pn] \<in> set (journal (unmountParts h parts s))"
proof (induction parts arbitrary: s)
  case Nil
  then show ?case by simp
next
  case (Cons x xs)
  let ?s1 = "invoke h [''sudo'', ''udisksctl'', ''unmount'', ''-b'', ''/dev/'' @ x] s"
  have step: "unmountParts h (x # xs) s = unmountParts h xs ?s1"
    by (simp add: unmountParts_def)
  show ?case
  proof (cases "pn = x")
    case True
    have "Execute [''sudo'', ''udisksctl'', ''unmount'', ''-b'', ''/dev/'' @ pn] \<in> set (journal ?s1)"
      using True by (simp add: journal_invoke)
    moreover have "set (journal ?s1) \<subseteq> set (journal (unmountParts h xs ?s1))"
      by (rule extendsBy_subset) (rule grows_unmountParts)
    ultimately show ?thesis using step by auto
  next
    case False
    with Cons.prems have "pn \<in> set xs" by simp
    then show ?thesis using Cons.IH step by simp
  qed
qed

lemma killHolders_issues:
  "Execute [''sudo'', ''fuser'', ''-km'', devPath] \<in> set (journal (killHolders h devPath parts s))"
proof -
  let ?s1 = "invoke h [''sudo'', ''fuser'', ''-km'', devPath] s"
  have "killHolders h devPath parts s
      = foldl (\<lambda>s n. invoke h [''sudo'', ''fuser'', ''-km'', n] s) ?s1 (map (\<lambda>pn. ''/dev/'' @ pn) parts)"
    by (simp add: killHolders_def)
  moreover have "extendsBy (\<lambda>a. True) ?s1
      (foldl (\<lambda>s n. invoke h [''sudo'', ''fuser'', ''-km'', n] s) ?s1 (map (\<lambda>pn. ''/dev/'' @ pn) parts))"
    by (rule extendsBy_foldl) (rule grows_invoke)
  ultimately have "set (journal ?s1) \<subseteq> set (journal (killHolders h devPath parts s))"
    by (simp add: extendsBy_subset)
  then show ?thesis by (auto simp: journal_invoke)
qed

lemma detachRest_subset:
  "set (journal s) \<subseteq> set (journal
     (rereadAndPowerOff h devPath (removeHolders h parts (killHolders h devPath parts
        (deactivateVgs h parts (closeLuks h parts (swapoffParts h parts s)))))))"
proof -
  let ?s1 = "swapoffParts h parts s"
  let ?s2 = "closeLuks h parts ?s1"
  let ?s3 = "deactivateVgs h parts ?s2"
  let ?s4 = "killHolders h devPath parts ?s3"
  let ?s5 = "removeHolders h parts ?s4"
  have "extendsBy (\<lambda>a. True) s ?s1" by (rule grows_swapoffParts)
  also have "extendsBy (\<lambda>a. True) ?s1 ?s2" by (rule grows_closeLuks)
  also have "extendsBy (\<lambda>a. True) ?s2 ?s3" by (rule grows_deactivateVgs)
  also have "extendsBy (\<lambda>a. True) ?s3 ?s4" by (rule grows_killHolders)
  also have "extendsBy (\<lambda>a. True) ?s4 ?s5" by (rule grows_removeHolders)
  also have "extendsBy (\<lambda>a. True) ?s5 (rereadAndPowerOff h devPath ?s5)"
    by (rule grows_rereadAndPowerOff)
  finally show ?thesis by (rule extendsBy_subset)
qed

subsection \<open>Decimal texts and MiB tokens\<close>

lemma below_ten: "(k::nat) < 10 \<Longrightarrow> k = 0 \<or> k = 1 \<or> k = 2 \<or> k = 3 \<or> k = 4 \<or> k = 5 \<or> k = 6 \<or> k = 7 \<or> k = 8 \<or> k = 9"
  by arith

lemma isDigit_digitChar: "k < 10 \<Longrightarrow> isDigit (digitChar k)"
  by (drule below_ten) (auto simp: isDigit_def digitChar_def)

lemma digitValue_digitChar: "k < 10 \<Longrightarrow> digitValue (digitChar k) = k"
  by (drule below_ten) (auto simp: digitValue_def digitChar_def)

lemma showNat_digits: "list_all isDigit (showNat n) \<and> showNat n \<noteq> []"
proof (induction n rule: showNat.induct)
  case (1 n)
  show ?case
  proof (cases "n < 10")
    case True
    then show ?thesis by (simp add: showNat.simps [of n] isDigit_digitChar)
  next
    case False
    then have "list_all isDigit (showNat (n div 10))" using 1 by simp
    moreover have "isDigit (digitChar (n mod 10))" by (simp add: isDigit_digitChar)
    ultimately show ?thesis using False by (simp add: showNat.simps [of n])
  qed
qed

lemma digitsValue_snoc: "digitsValue (ds @ [c]) = 10 * digitsValue ds + digitValue c"
  by (simp add: digitsValue_def)

lemma digitsValue_showNat: "digitsValue (showNat n) = n"
proof (induction n rule: showNat.induct)
  case (1 n)
  show ?case
  proof (cases "n < 10")
    case True
    then show ?thesis by (simp add: showNat.simps [of n] digitsValue_def digitValue_digitChar)
  next
    case False
    then have "digitsValue (showNat (n div 10)) = n div 10" using 1 by simp
    then show ?thesis using False
      by (simp add: showNat.simps [of n] digitsValue_snoc digitValue_digitChar)
  qed
qed

lemma digit_not_space: "isDigit c \<Longrightarrow> \<not> isSpace c"
  by (auto simp: isDigit_def isSpace_def)

lemma dropWhile_hd: "xs = [] \<or> \<not> P (hd xs) \<Longrightarrow> dropWhile P xs = xs"
  by (cases xs) auto

lemma trimmed_digits: "list_all isDigit ds \<Longrightarrow> trimmed ds = ds"
proof -
  assume d: "list_all isDigit ds"
  have a: "dropWhile isSpace ds = ds"
    using d by (intro dropWhile_hd) (cases ds, auto simp: digit_not_space)
  have "list_all isDigit (rev ds)" using d by (simp add: list_all_iff)
  then have b: "dropWhile isSpace (rev ds) = rev ds"
    by (intro dropWhile_hd) (cases "rev ds", auto simp: digit_not_space)
  show ?thesis by (simp add: trimmed_def a b)
qed

lemma takeWhile_all: "list_all P xs \<Longrightarrow> takeWhile P xs = xs"
  by (induction xs) auto

lemma dropWhile_all: "list_all P xs \<Longrightarrow> dropWhile P xs = []"
  by (induction xs) auto

lemma digits_no_sign:
  assumes "list_all isDigit ds"
  shows "\<not> startsWith ds ''-''" and "\<not> startsWith ds ''+''"
  using assms by (cases ds; auto simp: startsWith_def isDigit_def)+

lemma decimalToDouble_showNat: "decimalToDouble (showNat n) = Some (rat_of_nat n)"
proof -
  have d: "list_all isDigit (showNat n)" and ne: "showNat n \<noteq> []"
    using showNat_digits [of n] by simp_all
  have e: "\<not> startsWith [] ''.''" "digitsValue [] = 0"
    by (simp_all add: startsWith_def digitsValue_def)
  have d': "Ball (set (showNat n)) isDigit"
    using d by (simp add: list_all_iff)
  show ?thesis
    by (simp add: decimalToDouble_def Let_def trimmed_digits [OF d] digits_no_sign [OF d]
        takeWhile_all [OF d] dropWhile_all [OF d] ne e d' digitsValue_showNat)
qed

lemma digit_not_m: "isDigit c \<Longrightarrow> toLowerChar c \<noteq> CHR ''m''"
  by (auto simp: isDigit_def toLowerChar_def)

lemma removeStr_MiB_suffix:
  "list_all isDigit ds \<Longrightarrow> removeStr True ''MiB'' (ds @ ''MiB'') = ds"
proof (induction ds)
  case Nil
  show ?case by (simp add: startsWith_def toLower_def toLowerChar_def)
next
  case (Cons d ds)
  then have "toLowerChar d \<noteq> CHR ''m''" by (simp add: digit_not_m)
  then have "\<not> startsWith (toLower (d # ds @ ''MiB'')) (toLower ''MiB'')"
    by (simp add: startsWith_def toLower_def toLowerChar_def)
  then show ?case using Cons by simp
qed

lemma toULongLong_bound: "v < 2 ^ 52 \<Longrightarrow> toULongLong (v + 1 / 2) < 2 ^ 53"
proof (cases "0 \<le> v + 1 / 2")
  case False
  then show ?thesis by (simp add: toULongLong_def)
next
  case True
  assume "v < 2 ^ 52"
  then have "v + 1 / 2 < 2 ^ 53" by simp
  then have "\<lfloor>v + 1 / 2\<rfloor> < 2 ^ 53" by (simp add: floor_less_iff)
  moreover have "0 \<le> \<lfloor>v + 1 / 2\<rfloor>" using True by simp
  ultimately have "nat \<lfloor>v + 1 / 2\<rfloor> < 2 ^ 53" by (simp add: nat_less_iff)
  then show ?thesis by (simp add: toULongLong_def)
qed

lemma toULongLong_round:
  "0 \<le> v \<Longrightarrow> v < 2 ^ 52 \<Longrightarrow> toULongLong (v + 1 / 2) = nat \<lfloor>v + 1 / 2\<rfloor>"
proof -
  assume a: "0 \<le> v" "v < 2 ^ 52"
  have "(2::rat) ^ 52 + 1 / 2 < 2 ^ 64" by simp
  with a have "v + 1 / 2 < 2 ^ 64" by linarith
  with a show ?thesis by (simp add: toULongLong_def)
qed

lemma stripMiB_miB:
  "readsDecimals h \<Longrightarrow> v < 2 ^ 52 \<Longrightarrow> stripMiB h (miB v) = rat_of_nat (toULongLong (v + 1 / 2))"
  using showNat_digits toULongLong_bound [of v]
  by (simp add: stripMiB_def miB_def removeStr_MiB_suffix toDouble0_def readsDecimals_def)

lemma provisionExtent_small:
  assumes "readsDecimals h" and "0 \<le> a" and "a < 2 ^ 52" and "b < 2 ^ 52" and "b \<le> a + 10"
  shows "provisionExtent h wk partedBin devPath (miB a) (miB b) s
           = emit (ErrorOccurred ''Selected free space is too small.'') s"
proof -
  have ra: "toULongLong (a + 1 / 2) = nat \<lfloor>a + 1 / 2\<rfloor>"
    using assms(2,3) by (rule toULongLong_round)
  have le: "\<lfloor>b + 1 / 2\<rfloor> \<le> \<lfloor>a + 1 / 2\<rfloor> + 10"
    using assms(5) by linarith
  have "0 \<le> \<lfloor>a + 1 / 2\<rfloor>" using assms(2) by simp
  with le have "nat \<lfloor>b + 1 / 2\<rfloor> \<le> nat \<lfloor>a + 1 / 2\<rfloor> + 10" by linarith
  moreover have "toULongLong (b + 1 / 2) \<le> nat \<lfloor>b + 1 / 2\<rfloor>"
    by (simp add: toULongLong_def)
  ultimately have "toULongLong (b + 1 / 2) \<le> toULongLong (a + 1 / 2) + 10"
    using ra by linarith
  then have "rat_of_nat (toULongLong (b + 1 / 2)) \<le> rat_of_nat (toULongLong (a + 1 / 2)) + 10"
    by (metis of_nat_le_iff of_nat_add of_nat_numeral)
  then show ?thesis
    by (simp add: provisionExtent_def Let_def stripMiB_miB [OF assms(1) assms(3)]
        stripMiB_miB [OF assms(1) assms(4)])
qed

lemma largestFree_size: "fst (foldl (freeRow h) best lines) \<ge> fst best"
proof (induction lines arbitrary: best)
  case Nil
  show ?case by simp
next
  case (Cons l lines)
  have "fst best \<le> fst (freeRow h best l)"
    by (cases best) (auto simp: freeRow_def Let_def)
  also have "\<dots> \<le> fst (foldl (freeRow h) (freeRow h best l) lines)"
    by (rule Cons.IH)
  finally show ?case by simp
qed

lemma createFromFreeSpace_chosen:
  assumes "capture h [''sudo'', partedBin, devPath, ''-m'', ''unit'', ''MiB'', ''print'', ''free'']
             (emit (LogMessage ''Searching for free space...'') s) = (out, s2)"
  shows "createFromFreeSpace h wk partedBin devPath s =
           (case chosenExtent h (targetPartition wk) (splitLines out) of
              None \<Rightarrow> emit (ErrorOccurred ''No suitable free space found.'') s2
            | Some (a, b) \<Rightarrow>
                provisionExtent h wk partedBin devPath (miB a) (miB b)
                  (emit (LogMessage
                     ((if fst (selectedExtent h (targetPartition wk)) > 0
                          \<and> snd (selectedExtent h (targetPartition wk)) > fst (selectedExtent h (targetPartition wk))
                       then ''Using selected free extent: '' else ''Using largest free extent: '')
                      @ miB a @ '' -> '' @ miB b)) s2))"
  using assms
  by (auto simp: createFromFreeSpace_def chosenExtent_def Let_def split: prod.splits)

lemma chosenExtent_start:
  "chosenExtent h target lines = Some (a, b) \<Longrightarrow> 0 \<le> a"
  by (auto simp: chosenExtent_def Let_def split: prod.splits if_splits)

lemma provisionExtent_target:
  "provisionExtent h (wk\<lparr>targetPartition := t\<rparr>) partedBin devPath a b s
     = provisionExtent h wk partedBin devPath a b s"
  by (simp add: provisionExtent_def Let_def split: prod.splits)

lemma selectedExtent_empty: "selectedExtent h '''' = (- 1, - 1)"
  by (simp add: selectedExtent_def startsWith_def)

subsection \<open>Detection of a new partition\<close>

text \<open>
  Claim C1. Let \<open>after\<close> be the set of child-partition kernel names that lsblk reports when
  detectNewPartitionNode runs, and \<open>before\<close> any snapshot taken earlier. If
  \<open>after - before\<close> has exactly one element \<open>k\<close>, detectNewPartitionNode returns
  \<^verbatim>\<open>/dev/k\<close> and the strategy goes on with that node. If the difference has no element or
  more than one, it returns the empty string, and the calling strategy emits its error and
  stops: the rest of the strategy is not run, no node is guessed.
\<close>

theorem detectNewPartitionNode_single_difference:
  assumes "childPartitionsSet h devPath s = (after, s1)"
  shows "(card (set after - set before) = 1 \<longrightarrow>
            (\<exists>k. set after - set before = {k}
               \<and> detectNewPartitionNode h devPath before s = (''/dev/'' @ k, s1)
               \<and> detectNewOrFail h devPath before msg rest s = rest (''/dev/'' @ k) s1))
       \<and> (card (set after - set before) \<noteq> 1 \<longrightarrow>
            detectNewPartitionNode h devPath before s = ('''', s1)
          \<and> detectNewOrFail h devPath before msg rest s = emit (ErrorOccurred msg) s1)"
proof -
  let ?diff = "qminus after before"
  have d: "distinct ?diff"
    using assms by (simp add: distinct_childPartitionsSet distinct_qminus)
  have len: "length ?diff = card (set after - set before)"
    using d by (metis distinct_card set_qminus)
  have det: "detectNewPartitionNode h devPath before s =
      (if length ?diff \<noteq> 1 then ('''', s1) else (''/dev/'' @ hd ?diff, s1))"
    using assms by (simp add: detectNewPartitionNode_def)
  show ?thesis
  proof (cases "length ?diff = 1")
    case True
    then have "?diff = [hd ?diff]" by (rule length_one_hd)
    then have "set ?diff = {hd ?diff}" by (metis list.simps(15) empty_set)
    then have "set after - set before = {hd ?diff}" by (simp add: set_qminus)
    with True det len show ?thesis by (auto simp: detectNewOrFail_def)
  next
    case False
    with det len show ?thesis by (simp add: detectNewOrFail_def)
  qed
qed

text \<open>
  An instance: lsblk lists sda1 and sda2 under sda. With sda1 known before, the new node is
  \<^verbatim>\<open>/dev/sda2\<close>; with nothing known before (two new names) and with both known before (no
  new name) the result is empty and the caller reports the failure.
\<close>

theorem detectNewPartitionNode_single_difference_witness:
  "detectNewPartitionNode (staticHost lsblkTwoParts) ''/dev/sda'' [''sda1''] sys0
     = (''/dev/sda2'', \<lparr>world = (), journal = [Start [''lsblk'', ''-ln'', ''-o'', ''NAME,TYPE,PKNAME'']]\<rparr>)
   \<and> detectNewOrFail (staticHost lsblkTwoParts) ''/dev/sda'' [] ''Could not uniquely detect new root partition.''
        (\<lambda>node. emit InstallComplete) sys0
     = \<lparr>world = (), journal = [Start [''lsblk'', ''-ln'', ''-o'', ''NAME,TYPE,PKNAME''],
          Emit (ErrorOccurred ''Could not uniquely detect new root partition.'')]\<rparr>
   \<and> detectNewPartitionNode (staticHost lsblkTwoParts) ''/dev/sda'' [''sda2'', ''sda1''] sys0
     = ('''', \<lparr>world = (), journal = [Start [''lsblk'', ''-ln'', ''-o'', ''NAME,TYPE,PKNAME'']]\<rparr>)"
proof -
  let ?s1 = "\<lparr>world = (), journal = [Start [''lsblk'', ''-ln'', ''-o'', ''NAME,TYPE,PKNAME'']]\<rparr>"
  have cps: "childPartitionsSet (staticHost lsblkTwoParts) ''/dev/sda'' sys0 = ([''sda1'', ''sda2''], ?s1)"
    by code_simp
  note th = detectNewPartitionNode_single_difference [OF cps]
  have c1: "set [''sda1'', ''sda2''] - set [''sda1''] = {''sda2''}" by auto
  have c0: "card (set [''sda1'', ''sda2''] - set ([]::string list)) \<noteq> 1" by simp
  have c2: "card (set [''sda1'', ''sda2''] - set [''sda2'', ''sda1'']) \<noteq> 1" by simp
  from th [of "[''sda1'']"] c1 have r1:
    "detectNewPartitionNode (staticHost lsblkTwoParts) ''/dev/sda'' [''sda1''] sys0 = (''/dev/sda2'', ?s1)"
    by auto
  from th [of "[]" "''Could not uniquely detect new root partition.''" "\<lambda>node. emit InstallComplete"] c0
  have r0: "detectNewOrFail (staticHost lsblkTwoParts) ''/dev/sda'' []
       ''Could not uniquely detect new root partition.'' (\<lambda>node. emit InstallComplete) sys0
     = emit (ErrorOccurred ''Could not uniquely detect new root partition.'') ?s1"
    by blast
  from th [of "[''sda2'', ''sda1'']"] c2 have r2:
    "detectNewPartitionNode (staticHost lsblkTwoParts) ''/dev/sda'' [''sda2'', ''sda1''] sys0 = ('''', ?s1)"
    by blast
  from r1 r0 r2 show ?thesis by (simp add: emit_def act_def)
qed

subsection \<open>Rounding of partition bounds\<close>

lemma toLongLong_of_int:
  "- (2 ^ 63) \<le> k \<Longrightarrow> k < 2 ^ 63 \<Longrightarrow> toLongLong (of_int k) = k"
  by (simp add: toLongLong_def Let_def)

lemma longLong_id:
  "- (2 ^ 63) \<le> i \<Longrightarrow> i < 2 ^ 63 \<Longrightarrow> longLong i = i"
  by (simp add: longLong_def)

text \<open>
  Claim C3, as the code has it. When both strings parse, to \<open>s\<close> and \<open>e\<close>, and the ceiling of
  \<open>s\<close> and the floor of \<open>e\<close> fit a \<^verbatim>\<open>long long\<close> (they lie between \<open>- 2 ^ 63\<close> and \<open>2 ^ 63 - 1\<close>),
  parseMiBToBounds sets startMiB to the ceiling of \<open>s\<close>, raised to 1 if smaller, and endMiB to
  the floor of \<open>e\<close>, and it succeeds exactly when startMiB < endMiB. So it succeeds whenever
  \<open>e\<close> is at least 2 above both \<open>s\<close> and 1, and whenever it succeeds \<open>s < e\<close> and the integer
  range lies inside the real one. When either string does not parse it fails and leaves
  startMiB and endMiB as they were.
\<close>

theorem parseMiBToBounds_rounding:
  "(\<forall>s e. toDouble h (norm startStr) = Some s \<and> toDouble h (norm endStr) = Some e
          \<and> - (2 ^ 63) \<le> \<lceil>s\<rceil> \<and> \<lceil>s\<rceil> < 2 ^ 63 \<and> - (2 ^ 63) \<le> \<lfloor>e\<rfloor> \<and> \<lfloor>e\<rfloor> < 2 ^ 63 \<longrightarrow>
      (\<exists>ok startMiB endMiB.
          parseMiBToBounds h startStr endStr io = (ok, startMiB, endMiB)
        \<and> startMiB = max 1 \<lceil>s\<rceil> \<and> endMiB = \<lfloor>e\<rfloor>
        \<and> (ok \<longleftrightarrow> startMiB < endMiB)
        \<and> (max 1 s + 2 \<le> e \<longrightarrow> ok)
        \<and> (ok \<longrightarrow> s < e \<and> s \<le> of_int startMiB \<and> of_int endMiB \<le> e)))
   \<and> (toDouble h (norm startStr) = None \<or> toDouble h (norm endStr) = None \<longrightarrow>
        parseMiBToBounds h startStr endStr io = (False, io))"
proof (intro conjI allI impI)
  fix s e
  assume p: "toDouble h (norm startStr) = Some s \<and> toDouble h (norm endStr) = Some e
          \<and> - (2 ^ 63) \<le> \<lceil>s\<rceil> \<and> \<lceil>s\<rceil> < 2 ^ 63 \<and> - (2 ^ 63) \<le> \<lfloor>e\<rfloor> \<and> \<lfloor>e\<rfloor> < 2 ^ 63"
  then have cs: "toLongLong (of_int \<lceil>s\<rceil>) = \<lceil>s\<rceil>" and ce: "toLongLong (of_int \<lfloor>e\<rfloor>) = \<lfloor>e\<rfloor>"
    by (simp_all add: toLongLong_of_int)
  have eq: "parseMiBToBounds h startStr endStr io = (max 1 \<lceil>s\<rceil> < \<lfloor>e\<rfloor>, max 1 \<lceil>s\<rceil>, \<lfloor>e\<rfloor>)"
    using p by (auto simp: parseMiBToBounds_def Let_def max_def cs ce)
  have suff: "max 1 \<lceil>s\<rceil> < \<lfloor>e\<rfloor>" if "max 1 s + 2 \<le> e"
  proof -
    have "of_int \<lceil>s\<rceil> < s + 1" by linarith
    moreover have "e - 1 < of_int \<lfloor>e\<rfloor>" by linarith
    ultimately have "(of_int \<lceil>s\<rceil> :: rat) < of_int \<lfloor>e\<rfloor>" and "(1::rat) < of_int \<lfloor>e\<rfloor>"
      using that by (simp_all add: max_def split: if_splits)
    then show ?thesis by (simp add: max_def)
  qed
  have nec: "s < e \<and> s \<le> of_int (max 1 \<lceil>s\<rceil>) \<and> of_int \<lfloor>e\<rfloor> \<le> e" if "max 1 \<lceil>s\<rceil> < \<lfloor>e\<rfloor>"
  proof -
    have "\<lceil>s\<rceil> < \<lfloor>e\<rfloor>" using that by simp
    then have lt: "(of_int \<lceil>s\<rceil> :: rat) < of_int \<lfloor>e\<rfloor>" by simp
    have up: "s \<le> of_int \<lceil>s\<rceil>" by linarith
    have dn: "of_int \<lfloor>e\<rfloor> \<le> e" by linarith
    have "s < e" using lt up dn by linarith
    moreover have "s \<le> of_int (max 1 \<lceil>s\<rceil>)" using up by (simp add: max_def)
    ultimately show ?thesis using dn by simp
  qed
  show "\<exists>ok startMiB endMiB.
          parseMiBToBounds h startStr endStr io = (ok, startMiB, endMiB)
        \<and> startMiB = max 1 \<lceil>s\<rceil> \<and> endMiB = \<lfloor>e\<rfloor>
        \<and> (ok \<longleftrightarrow> startMiB < endMiB)
        \<and> (max 1 s + 2 \<le> e \<longrightarrow> ok)
        \<and> (ok \<longrightarrow> s < e \<and> s \<le> of_int startMiB \<and> of_int endMiB \<le> e)"
    using eq suff nec by blast
next
  assume "toDouble h (norm startStr) = None \<or> toDouble h (norm endStr) = None"
  then show "parseMiBToBounds h startStr endStr io = (False, io)"
    by (auto simp: parseMiBToBounds_def split: option.splits)
qed

text \<open>
  An instance: 1.00MiB to 100,50 MiB gives the bounds 1 and 100; an end that is not a
  number gives failure.
\<close>

theorem parseMiBToBounds_rounding_witness:
  "parseMiBToBounds (staticHost lsblkTwoParts) ''1.00MiB'' ''100,50 MiB'' (0, 0) = (True, 1, 100)
   \<and> parseMiBToBounds (staticHost lsblkTwoParts) ''1.00MiB'' ''x'' (0, 0) = (False, 0, 0)"
proof -
  have p: "toDouble (staticHost lsblkTwoParts) (norm ''1.00MiB'') = Some 1
           \<and> toDouble (staticHost lsblkTwoParts) (norm ''100,50 MiB'') = Some (201 / 2)
           \<and> - (2 ^ 63) \<le> \<lceil>1 :: rat\<rceil> \<and> \<lceil>1 :: rat\<rceil> < 2 ^ 63
           \<and> - (2 ^ 63) \<le> \<lfloor>201 / 2 :: rat\<rfloor> \<and> \<lfloor>201 / 2 :: rat\<rfloor> < 2 ^ 63"
    by code_simp
  have x: "toDouble (staticHost lsblkTwoParts) (norm ''x'') = None" by code_simp
  have c: "\<lceil>1 :: rat\<rceil> = 1" "\<lfloor>201 / 2 :: rat\<rfloor> = 100" by code_simp+
  from parseMiBToBounds_rounding [of "staticHost lsblkTwoParts" "''1.00MiB''" "''100,50 MiB''" "(0, 0)",
      THEN conjunct1, rule_format, OF p]
  obtain ok lo hi where r:
    "parseMiBToBounds (staticHost lsblkTwoParts) ''1.00MiB'' ''100,50 MiB'' (0, 0) = (ok, lo, hi)"
    "lo = max 1 \<lceil>1 :: rat\<rceil>" "hi = \<lfloor>201 / 2 :: rat\<rfloor>" "ok \<longleftrightarrow> lo < hi"
    by blast
  have a: "parseMiBToBounds (staticHost lsblkTwoParts) ''1.00MiB'' ''100,50 MiB'' (0, 0) = (True, 1, 100)"
    using r c by simp
  from parseMiBToBounds_rounding [of "staticHost lsblkTwoParts" "''1.00MiB''" "''x''" "(0, 0)"] x
  have b: "parseMiBToBounds (staticHost lsblkTwoParts) ''1.00MiB'' ''x'' (0, 0) = (False, 0, 0)"
    by blast
  from a b show ?thesis by simp
qed

text \<open>
  Start below end does not suffice for success: from 1.25 MiB to 1.75 MiB the ceiling of
  the start is 2, the floor of the end is 1, and parseMiBToBounds fails.
\<close>

theorem parseMiBToBounds_start_below_end_counterexample:
  "toDouble (staticHost lsblkTwoParts) (norm ''1.25MiB'') = Some (5 / 4)
   \<and> toDouble (staticHost lsblkTwoParts) (norm ''1.75MiB'') = Some (7 / 4)
   \<and> (5 / 4 :: rat) < 7 / 4
   \<and> parseMiBToBounds (staticHost lsblkTwoParts) ''1.25MiB'' ''1.75MiB'' (0, 0) = (False, 2, 1)
   \<and> \<not> (\<lceil>5 / 4 :: rat\<rceil> \<le> \<lfloor>7 / 4 :: rat\<rfloor>)"
  by code_simp

text \<open>
  Beyond the range of a \<^verbatim>\<open>long long\<close> the bounds are not the rounded values: an end of
  \<open>2 ^ 63\<close> MiB or more is converted to the least \<^verbatim>\<open>long long\<close>, and parseMiBToBounds fails.
\<close>

lemma parseMiBToBounds_beyond_range:
  assumes "toDouble h (norm startStr) = Some s" and "toDouble h (norm endStr) = Some e"
      and "2 ^ 63 \<le> \<lfloor>e\<rfloor>"
  shows "\<exists>startMiB. parseMiBToBounds h startStr endStr io = (False, startMiB, - (2 ^ 63))"
proof -
  have "toLongLong (of_int \<lfloor>e\<rfloor>) = - (2 ^ 63)"
    using assms(3) by (simp add: toLongLong_def Let_def)
  then show ?thesis
    using assms(1,2) by (simp add: parseMiBToBounds_def Let_def)
qed


subsection \<open>Detaching never touches the system disk\<close>

text \<open>
  Claim C2. When isSystemDisk answers true for the disk, bestEffortDetachDevice adds to the
  journal the three unmounts of the staging mount points, then only the read-only queries
  of isSystemDisk (findmnt, blkid, lsblk), then \<^verbatim>\<open>udevadm settle\<close>, and returns: the commands
  executed are exactly those four, so no fuser, swapoff, cryptsetup close or vgchange is
  issued. When isSystemDisk answers false, an unmount (through udisksctl) is issued for
  every partition that lsblk lists under the disk.
\<close>

theorem bestEffortDetachDevice_system_disk_guard:
  "(\<forall>s2. isSystemDisk h devPath (unmountStaging h s) = (True, s2) \<longrightarrow>
      (\<exists>qs. journal (bestEffortDetachDevice h devPath s) =
               journal s
               @ [Execute [''sudo'', ''umount'', ''-Rl'', ''/mnt/boot/efi''],
                  Execute [''sudo'', ''umount'', ''-Rl'', ''/mnt/boot''],
                  Execute [''sudo'', ''umount'', ''-Rl'', ''/mnt'']]
               @ qs @ [Execute [''sudo'', ''udevadm'', ''settle'']]
          \<and> list_all inspects qs)
      \<and> executed (journal (bestEffortDetachDevice h devPath s)) =
          executed (journal s)
          @ [[''sudo'', ''umount'', ''-Rl'', ''/mnt/boot/efi''],
             [''sudo'', ''umount'', ''-Rl'', ''/mnt/boot''],
             [''sudo'', ''umount'', ''-Rl'', ''/mnt''],
             [''sudo'', ''udevadm'', ''settle'']])
   \<and> (\<forall>s2 parts s3 pn.
        isSystemDisk h devPath (unmountStaging h s) = (False, s2)
        \<and> childPartitionsSet h devPath s2 = (parts, s3) \<and> pn \<in> set parts \<longrightarrow>
        Execute [''sudo'', ''udisksctl'', ''unmount'', ''-b'', ''/dev/'' @ pn]
          \<in> set (journal (bestEffortDetachDevice h devPath s)))"
proof (intro conjI allI impI)
  fix s2
  assume sd: "isSystemDisk h devPath (unmountStaging h s) = (True, s2)"
  from isSystemDisk_inspects [OF sd] obtain qs where
    qs: "journal s2 = journal (unmountStaging h s) @ qs" "list_all inspects qs"
    by (auto simp: extendsBy_def)
  have b: "bestEffortDetachDevice h devPath s = invoke h [''sudo'', ''udevadm'', ''settle''] s2"
    using sd by (simp add: bestEffortDetachDevice_def Let_def)
  have j: "journal (bestEffortDetachDevice h devPath s) =
               journal s
               @ [Execute [''sudo'', ''umount'', ''-Rl'', ''/mnt/boot/efi''],
                  Execute [''sudo'', ''umount'', ''-Rl'', ''/mnt/boot''],
                  Execute [''sudo'', ''umount'', ''-Rl'', ''/mnt'']]
               @ qs @ [Execute [''sudo'', ''udevadm'', ''settle'']]"
    by (simp add: b journal_invoke qs(1) unmountStaging_journal)
  with qs(2) show "\<exists>qs. journal (bestEffortDetachDevice h devPath s) =
               journal s
               @ [Execute [''sudo'', ''umount'', ''-Rl'', ''/mnt/boot/efi''],
                  Execute [''sudo'', ''umount'', ''-Rl'', ''/mnt/boot''],
                  Execute [''sudo'', ''umount'', ''-Rl'', ''/mnt'']]
               @ qs @ [Execute [''sudo'', ''udevadm'', ''settle'']]
          \<and> list_all inspects qs"
    by blast
  show "executed (journal (bestEffortDetachDevice h devPath s)) =
          executed (journal s)
          @ [[''sudo'', ''umount'', ''-Rl'', ''/mnt/boot/efi''],
             [''sudo'', ''umount'', ''-Rl'', ''/mnt/boot''],
             [''sudo'', ''umount'', ''-Rl'', ''/mnt''],
             [''sudo'', ''udevadm'', ''settle'']]"
    by (simp add: j executed_append executed_inspects [OF qs(2)])
next
  fix s2 parts s3 pn
  assume a: "isSystemDisk h devPath (unmountStaging h s) = (False, s2)
        \<and> childPartitionsSet h devPath s2 = (parts, s3) \<and> pn \<in> set parts"
  have b: "bestEffortDetachDevice h devPath s =
      rereadAndPowerOff h devPath (removeHolders h parts (killHolders h devPath parts
        (deactivateVgs h parts (closeLuks h parts (swapoffParts h parts (unmountParts h parts s3))))))"
    using a by (simp add: bestEffortDetachDevice_def Let_def)
  have "Execute [''sudo'', ''udisksctl'', ''unmount'', ''-b'', ''/dev/'' @ pn]
          \<in> set (journal (unmountParts h parts s3))"
    using a by (intro unmountParts_issues) simp
  then show "Execute [''sudo'', ''udisksctl'', ''unmount'', ''-b'', ''/dev/'' @ pn]
          \<in> set (journal (bestEffortDetachDevice h devPath s))"
    using detachRest_subset [of "unmountParts h parts s3" h devPath parts] b by auto
qed

text \<open>
  An instance: the machine runs from sda2 and has a second disk sdb with the partition
  sdb1. Detaching sda executes the three staging unmounts and the settle, nothing else;
  detaching sdb unmounts sdb1.
\<close>

theorem bestEffortDetachDevice_system_disk_guard_witness:
  "executed (journal (bestEffortDetachDevice (staticHost twoDiskReply) ''/dev/sda'' sys0)) =
     [[''sudo'', ''umount'', ''-Rl'', ''/mnt/boot/efi''],
      [''sudo'', ''umount'', ''-Rl'', ''/mnt/boot''],
      [''sudo'', ''umount'', ''-Rl'', ''/mnt''],
      [''sudo'', ''udevadm'', ''settle'']]
   \<and> Execute [''sudo'', ''udisksctl'', ''unmount'', ''-b'', ''/dev/sdb1'']
       \<in> set (journal (bestEffortDetachDevice (staticHost twoDiskReply) ''/dev/sdb'' sys0))"
proof -
  let ?h = "staticHost twoDiskReply"
  let ?lsblk = "\<lambda>d. Start [''lsblk'', ''-ln'', ''-o'', ''NAME,TYPE,PKNAME'', d]"
  let ?j = "[Execute [''sudo'', ''umount'', ''-Rl'', ''/mnt/boot/efi''],
             Execute [''sudo'', ''umount'', ''-Rl'', ''/mnt/boot''],
             Execute [''sudo'', ''umount'', ''-Rl'', ''/mnt''],
             Start [''findmnt'', ''-no'', ''SOURCE'', ''/''], Start [''blkid'', ''-U'', ''0a1b''],
             ?lsblk ''/dev/sda2'', ?lsblk ''/dev/sda'']"
  have sa: "isSystemDisk ?h ''/dev/sda'' (unmountStaging ?h sys0)
              = (True, \<lparr>world = (), journal = ?j @ [?lsblk ''/dev/sda'']\<rparr>)"
    by code_simp
  have sb: "isSystemDisk ?h ''/dev/sdb'' (unmountStaging ?h sys0)
              = (False, \<lparr>world = (), journal = ?j @ [?lsblk ''/dev/sdb'']\<rparr>)"
    by code_simp
  have cp: "childPartitionsSet ?h ''/dev/sdb'' \<lparr>world = (), journal = ?j @ [?lsblk ''/dev/sdb'']\<rparr>
              = ([''sdb1''], \<lparr>world = (), journal = ?j @ [?lsblk ''/dev/sdb'',
                    Start [''lsblk'', ''-ln'', ''-o'', ''NAME,TYPE,PKNAME'']]\<rparr>)"
    by code_simp
  have j0: "executed (journal sys0) = []"
    by (simp add: sys0_def)
  note g = bestEffortDetachDevice_system_disk_guard [of ?h _ sys0]
  from g [of "''/dev/sda''", THEN conjunct1, rule_format, OF sa] j0
  have a: "executed (journal (bestEffortDetachDevice ?h ''/dev/sda'' sys0)) =
     [[''sudo'', ''umount'', ''-Rl'', ''/mnt/boot/efi''],
      [''sudo'', ''umount'', ''-Rl'', ''/mnt/boot''],
      [''sudo'', ''umount'', ''-Rl'', ''/mnt''],
      [''sudo'', ''udevadm'', ''settle'']]"
    by simp
  have m: "''sdb1'' \<in> set [''sdb1'']" by simp
  from g [of "''/dev/sdb''", THEN conjunct2, rule_format, OF conjI [OF sb conjI [OF cp m]]]
  have b: "Execute [''sudo'', ''udisksctl'', ''unmount'', ''-b'', ''/dev/sdb1'']
       \<in> set (journal (bestEffortDetachDevice ?h ''/dev/sdb'' sys0))"
    by simp
  from a b show ?thesis by simp
qed

subsection \<open>Recognising the system disk\<close>




lemma length2_conv: "length xs \<ge> 2 \<longleftrightarrow> (\<exists>a b r. xs = a # b # r)"
  by (cases xs; cases "tl xs"; auto)



















subsection \<open>The free-space strategy rejects small extents\<close>

text \<open>
  Claim C7, as the code has it. Let the chosen extent be the one the caller selected, when
  it is usable, else the largest free extent of the listing. If its end is at most 10 MiB
  past its start, createFromFreeSpace emits the error \<^verbatim>\<open>Selected free space is too small.\<close>
  and returns; up to then it has only emitted log messages and read the listing of parted,
  so no partition has been touched. This holds in both boot modes, for every host whose
  toDouble reads back the decimal numbers that the engine writes. No further size is
  required in EFI mode.
\<close>

theorem createFromFreeSpace_rejects_small_extent:
  assumes "readsDecimals h"
      and "capture h [''sudo'', partedBin, devPath, ''-m'', ''unit'', ''MiB'', ''print'', ''free'']
             (emit (LogMessage ''Searching for free space...'') s) = (out, s2)"
      and "chosenExtent h (targetPartition wk) (splitLines out) = Some (startMiB, endMiB)"
      and "startMiB < 2 ^ 52" and "endMiB < 2 ^ 52"
      and "endMiB \<le> startMiB + 10"
  shows "\<exists>msg. journal (createFromFreeSpace h wk partedBin devPath s) =
           journal s @
             [Emit (LogMessage ''Searching for free space...''),
              Start [''sudo'', partedBin, devPath, ''-m'', ''unit'', ''MiB'', ''print'', ''free''],
              Emit (LogMessage msg),
              Emit (ErrorOccurred ''Selected free space is too small.'')]"
proof -
  have a0: "0 \<le> startMiB" using assms(3) by (rule chosenExtent_start)
  have j2: "journal s2 = journal s @ [Emit (LogMessage ''Searching for free space...''),
      Start [''sudo'', partedBin, devPath, ''-m'', ''unit'', ''MiB'', ''print'', ''free'']]"
    using journal_capture [of h "[''sudo'', partedBin, devPath, ''-m'', ''unit'', ''MiB'', ''print'', ''free'']"
        "emit (LogMessage ''Searching for free space...'') s"] assms(2)
    by (simp add: emit_def journal_act)
  show ?thesis
    by (simp add: createFromFreeSpace_chosen [OF assms(2)] assms(3)
        provisionExtent_small [OF assms(1) a0 assms(4,5,6)] emit_def journal_act j2)
qed

subsection \<open>An unusable selected extent is ignored\<close>

text \<open>
  Claim C10. Let selStartMiB and selEndMiB be the numbers read from the target token (0
  for a field that is not a number, -1 for both when the token has fewer than three
  fields or does not start with \<^verbatim>\<open>__FREE__:\<close>). If selStartMiB is not positive or selEndMiB is
  not greater than selStartMiB, createFromFreeSpace behaves exactly as it does without
  any selected extent: it takes the largest free extent of the listing of parted, and
  reports an error only if there is none.
\<close>

theorem createFromFreeSpace_invalid_extent_falls_back:
  assumes "selectedExtent h (targetPartition wk) = (selStartMiB, selEndMiB)"
      and "\<not> (selStartMiB > 0 \<and> selEndMiB > selStartMiB)"
  shows "createFromFreeSpace h wk partedBin devPath s
           = createFromFreeSpace h (wk\<lparr>targetPartition := ''''\<rparr>) partedBin devPath s
       \<and> createFromFreeSpace h wk partedBin devPath s
           = (let s1 = emit (LogMessage ''Searching for free space...'') s;
                  (out, s2) = capture h [''sudo'', partedBin, devPath, ''-m'', ''unit'', ''MiB'', ''print'', ''free''] s1;
                  (bestSize, bestStart, bestEnd) = largestFree h (splitLines out)
              in if bestStart < 0 then emit (ErrorOccurred ''No suitable free space found.'') s2
                 else provisionExtent h wk partedBin devPath (miB bestStart) (miB bestEnd)
                        (emit (LogMessage (''Using largest free extent: '' @ miB bestStart @ '' -> '' @ miB bestEnd)) s2))"
proof -
  have auto_sel: "createFromFreeSpace h wk partedBin devPath s
           = (let s1 = emit (LogMessage ''Searching for free space...'') s;
                  (out, s2) = capture h [''sudo'', partedBin, devPath, ''-m'', ''unit'', ''MiB'', ''print'', ''free''] s1;
                  (bestSize, bestStart, bestEnd) = largestFree h (splitLines out)
              in if bestStart < 0 then emit (ErrorOccurred ''No suitable free space found.'') s2
                 else provisionExtent h wk partedBin devPath (miB bestStart) (miB bestEnd)
                        (emit (LogMessage (''Using largest free extent: '' @ miB bestStart @ '' -> '' @ miB bestEnd)) s2))"
    using assms by (auto simp: createFromFreeSpace_def Let_def split: prod.splits)
  have "createFromFreeSpace h (wk\<lparr>targetPartition := ''''\<rparr>) partedBin devPath s
           = (let s1 = emit (LogMessage ''Searching for free space...'') s;
                  (out, s2) = capture h [''sudo'', partedBin, devPath, ''-m'', ''unit'', ''MiB'', ''print'', ''free''] s1;
                  (bestSize, bestStart, bestEnd) = largestFree h (splitLines out)
              in if bestStart < 0 then emit (ErrorOccurred ''No suitable free space found.'') s2
                 else provisionExtent h wk partedBin devPath (miB bestStart) (miB bestEnd)
                        (emit (LogMessage (''Using largest free extent: '' @ miB bestStart @ '' -> '' @ miB bestEnd)) s2))"
    by (auto simp: createFromFreeSpace_def selectedExtent_empty provisionExtent_target Let_def split: prod.splits)
  with auto_sel show ?thesis by simp
qed

end
